theory Spec2Isabelle
  imports Main "HOL-Library.Word" "HOL-Library.AList"
begin

section \<open>Binary Cursor\<close>

type_synonym byte = "8 word"

datatype error = RangeError

text \<open>
  Modelled from the spec: \<^verbatim>\<open>models/BinaryReader.js\<close> is imported by
  \<^verbatim>\<open>services/PacketProcessor.js\<close> but is not among the sources. The spec (section 2)
  describes it as a bounds-checked sequential reader over a byte buffer with a movable
  position. The reader is a buffer with a position; \<^verbatim>\<open>remaining()\<close> is the number of
  bytes from the position to the end; a read of four bytes past the end raises, a read
  inside the buffer returns the value and moves the position by four.
  \<^verbatim>\<open>readUInt32LE\<close> is little-endian by its name. The byte order of \<^verbatim>\<open>readInt32\<close> is
  not given; it is taken big-endian here, and every caller modelled below discards the
  value it returns.
\<close>

record BinaryReader =
  buffer :: "byte list"
  position :: nat

definition newBinaryReader :: "byte list \<Rightarrow> BinaryReader" where
  "newBinaryReader buf = \<lparr>buffer = buf, position = 0\<rparr>"

definition remaining :: "BinaryReader \<Rightarrow> nat" where
  "remaining r = length (buffer r) - position r"

definition leValue :: "byte list \<Rightarrow> nat" where
  "leValue bs = foldr (\<lambda>b acc. unat b + 256 * acc) bs 0"

definition beValue :: "byte list \<Rightarrow> nat" where
  "beValue bs = foldl (\<lambda>acc b. 256 * acc + unat b) 0 bs"

definition readUInt32LE :: "BinaryReader \<Rightarrow> error + (nat \<times> BinaryReader)" where
  "readUInt32LE r =
     (if position r + 4 \<le> length (buffer r)
      then Inr (leValue (take 4 (drop (position r) (buffer r))),
                r\<lparr>position := position r + 4\<rparr>)
      else Inl RangeError)"

definition readInt32 :: "BinaryReader \<Rightarrow> error + (int \<times> BinaryReader)" where
  "readInt32 r =
     (if position r + 4 \<le> length (buffer r)
      then (let v = beValue (take 4 (drop (position r) (buffer r)))
            in Inr (if v < 2147483648 then int v else int v - 4294967296,
                    r\<lparr>position := position r + 4\<rparr>))
      else Inl RangeError)"

section \<open>Frame Assembler\<close>

text \<open>
  \<^verbatim>\<open>doesStreamHaveIdentifier\<close> (PacketProcessor.js, lines 228-236). The reader is
  mutable in the source, so the model returns it together with the answer. An exception
  of a read is the \<open>Inl\<close> result.
\<close>

definition doesStreamHaveIdentifier :: "BinaryReader \<Rightarrow> error + (bool \<times> BinaryReader)" where
  "doesStreamHaveIdentifier reader =
     (let start = position reader in
      if remaining reader < 8 then Inr (False, reader)
      else
        case readUInt32LE reader of
          Inl e \<Rightarrow> Inl e
        | Inr (ident, r1) \<Rightarrow>
            (case readInt32 r1 of
               Inl e \<Rightarrow> Inl e
             | Inr (_, r2) \<Rightarrow>
                 if ident \<noteq> 0xfffffffe then Inr (False, r2\<lparr>position := start\<rparr>)
                 else
                   (case readInt32 r2 of
                      Inl e \<Rightarrow> Inl e
                    | Inr (_, r3) \<Rightarrow>
                        (case readInt32 r3 of
                           Inl e \<Rightarrow> Inl e
                         | Inr (_, r4) \<Rightarrow> Inr (True, r4\<lparr>position := start\<rparr>)))))"

text \<open>
  The state of the assembler: the private field \<^verbatim>\<open>#internalBuffer\<close>, and the trace of
  the buffers handed to \<^verbatim>\<open>#processSinglePacket\<close> (the Message Dispatcher), in order.
\<close>

record PacketProcessor =
  internalBuffer :: "byte list"
  delivered :: "byte list list"

text \<open>
  How a call of \<^verbatim>\<open>#parseBuffer\<close> ends: it returns, or an exception leaves it; either
  way the state reached so far stays in the object.
\<close>

datatype 'a outcome = Returned 'a | Threw 'a

fun stateOf :: "'a outcome \<Rightarrow> 'a" where
  "stateOf (Returned s) = s"
| "stateOf (Threw s) = s"

definition MIN_SIZE :: nat where "MIN_SIZE = 6"
definition MAX_SIZE :: nat where "MAX_SIZE = 1024 * 1024"

text \<open>
  \<^verbatim>\<open>#parseBuffer\<close> (lines 799-823) with \<^verbatim>\<open>#processSinglePacket\<close> (lines 825-849) in
  place at its only call. What \<^verbatim>\<open>#processSinglePacket\<close> does to the assembler is to
  feed the nested stream of a FrameDown packet back through \<^verbatim>\<open>processDataChunk\<close>,
  inside a \<^verbatim>\<open>try\<close> whose \<^verbatim>\<open>catch\<close> swallows every exception. The bytes it feeds
  back depend on the missing reader and on zlib, so they are the parameter
  \<open>nestedOf\<close>: the nested chunk of a packet, empty when there is none (an empty chunk
  makes \<^verbatim>\<open>processDataChunk\<close> return at once). Decompression can grow the data, so the
  loop is not bounded by the model alone: not returning is the value \<open>None\<close>.
\<close>

partial_function (option) parseBuffer ::
  "(byte list \<Rightarrow> byte list) \<Rightarrow> PacketProcessor \<Rightarrow> PacketProcessor outcome option" where
  "parseBuffer nestedOf st =
     (if length (internalBuffer st) \<ge> 4 then
        (case doesStreamHaveIdentifier (newBinaryReader (internalBuffer st)) of
           Inl e \<Rightarrow> Some (Threw st)
         | Inr (hasHeader, temp) \<Rightarrow>
             if \<not> hasHeader then
               parseBuffer nestedOf (st\<lparr>internalBuffer := drop 4 (internalBuffer st)\<rparr>)
             else
               (let packetSize = leValue (take 4 (internalBuffer st)) in
                if packetSize < MIN_SIZE \<or> packetSize > MAX_SIZE then
                  Some (Returned (st\<lparr>internalBuffer := []\<rparr>))
                else if length (internalBuffer st) < packetSize then Some (Returned st)
                else
                  (let packetData = take packetSize (internalBuffer st);
                       st1 = st\<lparr>internalBuffer := drop packetSize (internalBuffer st),
                                delivered := delivered st @ [packetData]\<rparr>;
                       nested = nestedOf packetData
                   in if nested = [] then parseBuffer nestedOf st1
                      else
                        Option.bind
                          (parseBuffer nestedOf
                             (st1\<lparr>internalBuffer := internalBuffer st1 @ nested\<rparr>))
                          (\<lambda>r. parseBuffer nestedOf (stateOf r)))))
      else Some (Returned st))"

text \<open>\<^verbatim>\<open>processDataChunk\<close> (lines 793-797).\<close>

definition processDataChunk ::
  "(byte list \<Rightarrow> byte list) \<Rightarrow> byte list \<Rightarrow> PacketProcessor \<Rightarrow> PacketProcessor outcome option" where
  "processDataChunk nestedOf chunk st =
     (if chunk = [] then Some (Returned st)
      else parseBuffer nestedOf (st\<lparr>internalBuffer := internalBuffer st @ chunk\<rparr>))"

section \<open>Numbers\<close>

text \<open>
  A JavaScript number that holds an integer is modelled by that integer. The integers
  of magnitude up to \<open>2 ^ 53\<close> are numbers as they are; turning a 64-bit value into a
  number (\<^verbatim>\<open>Number(x)\<close>, \<^verbatim>\<open>toNumber()\<close>) and adding two numbers give the nearest
  double, ties going to the even significand. \<open>bitLength\<close> is the number of binary
  digits. Infinity and NaN are not modelled: no sum of 64-bit values reaches them.
\<close>

function bitLength :: "nat \<Rightarrow> nat" where
  "bitLength n = (if n = 0 then 0 else Suc (bitLength (n div 2)))"
  by pat_completeness auto
termination
  by (relation "measure id") auto

declare bitLength.simps [simp del]

definition nearestDouble :: "int \<Rightarrow> int" where
  "nearestDouble v =
     (if \<bar>v\<bar> \<le> 2 ^ 53 then v
      else
        (let n = nat \<bar>v\<bar>;
             e = bitLength n - 53;
             q = n div 2 ^ e;
             r = n mod 2 ^ e;
             half = 2 ^ (e - 1);
             q' = (if r > half \<or> (r = half \<and> odd q) then q + 1 else q)
         in sgn v * int (q' * 2 ^ e)))"

definition jsAdd :: "int \<Rightarrow> int \<Rightarrow> int" where
  "jsAdd a b = nearestDouble (a + b)"

section \<open>Statistics Aggregator\<close>

text \<open>\<^verbatim>\<open>STAT_TYPES\<close> (UserData.js, lines 6-9).\<close>

datatype statType = DAMAGE | HEALING

text \<open>
  Modelled from the spec: \<^verbatim>\<open>models/StatisticData.js\<close> is imported by
  \<^verbatim>\<open>models/UserData.js\<close> but is not among the sources. The spec (sections 3 and 4.6)
  gives a statistics aggregate counts of normal, critical, lucky, critical-and-lucky and
  total hits, the matching cumulative value totals, and a realtime window of
  time-stamped magnitudes. \<^verbatim>\<open>addRecord(value, isCrit, isLucky, hpLessenValue?)\<close>
  increments the total count and the count of the matching bucket, adds the value to the
  matching cumulative total and to the overall total, and appends a time-stamped entry
  to the window. The spec does not say where \<^verbatim>\<open>hpLessenValue\<close> goes, so the model
  takes it and keeps no field for it. The rates (\<^verbatim>\<open>realtimeStats\<close>, per-second totals)
  are floating-point values of the clock and are left out. Counts and totals are numbers
  holding integers, added as JavaScript adds them (\<open>jsAdd\<close>). \<^verbatim>\<open>Date.now()\<close> is the
  parameter \<open>now\<close> of every operation that reads the clock.
\<close>

record buckets =
  normal :: int
  critical :: int
  lucky :: int
  crit_lucky :: int
  total :: int

definition zeroBuckets :: buckets where
  "zeroBuckets = \<lparr>normal = 0, critical = 0, lucky = 0, crit_lucky = 0, total = 0\<rparr>"

record StatisticData =
  stype :: statType
  element :: "nat option"
  stats :: buckets
  count :: buckets
  realtimeWindow :: "(int \<times> int) list"

definition newStatisticData :: "statType \<Rightarrow> nat option \<Rightarrow> StatisticData" where
  "newStatisticData ty el =
     \<lparr>stype = ty, element = el, stats = zeroBuckets, count = zeroBuckets, realtimeWindow = []\<rparr>"

definition addToBucket :: "bool \<Rightarrow> bool \<Rightarrow> int \<Rightarrow> buckets \<Rightarrow> buckets" where
  "addToBucket isCrit isLucky v b =
     (let b1 = (if isCrit \<and> isLucky then b\<lparr>crit_lucky := jsAdd (crit_lucky b) v\<rparr>
                else if isCrit then b\<lparr>critical := jsAdd (critical b) v\<rparr>
                else if isLucky then b\<lparr>lucky := jsAdd (lucky b) v\<rparr>
                else b\<lparr>normal := jsAdd (normal b) v\<rparr>)
      in b1\<lparr>total := jsAdd (total b1) v\<rparr>)"

definition addRecord :: "int \<Rightarrow> bool \<Rightarrow> bool \<Rightarrow> int \<Rightarrow> int \<Rightarrow> StatisticData \<Rightarrow> StatisticData" where
  "addRecord v isCrit isLucky hpLessenValue now sd =
     sd\<lparr>count := addToBucket isCrit isLucky 1 (count sd),
        stats := addToBucket isCrit isLucky v (stats sd),
        realtimeWindow := realtimeWindow sd @ [(now, v)]\<rparr>"

section \<open>User record\<close>

definition HEAL_OFFSET :: int where
  "HEAL_OFFSET = 1000000000"

text \<open>\<^verbatim>\<open>getSubProfessionBySkillId\<close> (UserData.js, lines 14-49).\<close>

definition getSubProfessionBySkillId :: "int \<Rightarrow> string" where
  "getSubProfessionBySkillId skillId =
     (if skillId = 1241 then ''frostbeam''
      else if skillId \<in> set [2307, 2361, 55302] then ''concerto''
      else if skillId = 20301 then ''lifebind''
      else if skillId \<in> set [1518, 1541, 21402] then ''smite''
      else if skillId = 2306 then ''dissonance''
      else if skillId \<in> set [120901, 120902] then ''icicle''
      else if skillId \<in> set [1714, 1734] then ''iaido''
      else if skillId \<in> set [44701, 179906] then ''moonstrike''
      else if skillId \<in> set [220112, 2203622] then ''falconry''
      else if skillId \<in> set [2292, 1700820, 1700825, 1700827] then ''wildpack''
      else if skillId = 1419 then ''vanguard''
      else if skillId \<in> set [1405, 1418] then ''skyward''
      else if skillId = 2405 then ''shield''
      else if skillId = 2406 then ''recovery''
      else if skillId = 199902 then ''earthfort''
      else if skillId \<in> set [1930, 1931, 1934, 1935] then ''block''
      else '''')"

text \<open>
  The class \<^verbatim>\<open>UserData\<close> (UserData.js, lines 51-66). A JavaScript \<^verbatim>\<open>Map\<close> and the
  object \<^verbatim>\<open>attr\<close> are association lists in insertion order: \<^verbatim>\<open>get\<close> is \<open>map_of\<close>,
  \<^verbatim>\<open>set\<close> is \<open>AList.update\<close> (in place for a key that is there, at the end for a new
  one), \<^verbatim>\<open>delete\<close> is \<open>AList.delete\<close>. The methods of the class carry the prefix
  \<open>UserData_\<close>; they take the object and return it updated.
\<close>

record UserData =
  uid :: int
  name :: string
  damageStats :: StatisticData
  healingStats :: StatisticData
  takenDamage :: int
  deadCount :: int
  profession :: string
  skillUsage :: "(int \<times> StatisticData) list"
  fightPoint :: int
  subProfession :: string
  subProfessionUsage :: "(string \<times> nat) list"
  attr :: "(string \<times> int) list"
  lastUpdateTime :: int

definition newUserData :: "int \<Rightarrow> int \<Rightarrow> UserData" where
  "newUserData u now =
     \<lparr>uid = u, name = '''',
      damageStats = newStatisticData DAMAGE None,
      healingStats = newStatisticData HEALING None,
      takenDamage = 0, deadCount = 0, profession = ''...'', skillUsage = [],
      fightPoint = 0, subProfession = '''', subProfessionUsage = [], attr = [],
      lastUpdateTime = now\<rparr>"

definition UserData_touch :: "int \<Rightarrow> UserData \<Rightarrow> UserData" where
  "UserData_touch now u = u\<lparr>lastUpdateTime := now\<rparr>"

definition UserData_setSubProfession :: "string \<Rightarrow> int \<Rightarrow> UserData \<Rightarrow> UserData" where
  "UserData_setSubProfession sp now u = (UserData_touch now u)\<lparr>subProfession := sp\<rparr>"

definition UserData_setProfession :: "string \<Rightarrow> int \<Rightarrow> UserData \<Rightarrow> UserData" where
  "UserData_setProfession p now u =
     (let u1 = UserData_touch now u;
          u2 = (if p \<noteq> profession u1
                then (UserData_setSubProfession '''' now u1)\<lparr>subProfessionUsage := []\<rparr>
                else u1)
      in u2\<lparr>profession := p\<rparr>)"

definition UserData_setName :: "string \<Rightarrow> int \<Rightarrow> UserData \<Rightarrow> UserData" where
  "UserData_setName n now u = (UserData_touch now u)\<lparr>name := n\<rparr>"

definition UserData_setFightPoint :: "int \<Rightarrow> int \<Rightarrow> UserData \<Rightarrow> UserData" where
  "UserData_setFightPoint fp now u = (UserData_touch now u)\<lparr>fightPoint := fp\<rparr>"

definition UserData_setAttrKV :: "string \<Rightarrow> int \<Rightarrow> int \<Rightarrow> UserData \<Rightarrow> UserData" where
  "UserData_setAttrKV key v now u = (UserData_touch now u)\<lparr>attr := AList.update key v (attr u)\<rparr>"

text \<open>
  \<^verbatim>\<open>updateSubProfession\<close> (lines 70-101). \<^verbatim>\<open>get(k) || 0\<close> is \<open>usageCount\<close>. The
  second read of the candidate's counter has no default in the source; a missing value
  would compare as false, which is the \<open>None\<close> branch.
\<close>

definition usageCount :: "(string \<times> nat) list \<Rightarrow> string \<Rightarrow> nat" where
  "usageCount usage k = (case map_of usage k of None \<Rightarrow> 0 | Some c \<Rightarrow> c)"

definition updateSubProfession :: "int \<Rightarrow> int \<Rightarrow> UserData \<Rightarrow> UserData" where
  "updateSubProfession skillId now u =
     (let sp = getSubProfessionBySkillId skillId in
      if sp = '''' then u
      else if profession u = ''...'' \<or> profession u = '''' then u
      else
        (let currentCount = usageCount (subProfessionUsage u) sp;
             u1 = u\<lparr>subProfessionUsage := AList.update sp (currentCount + 1) (subProfessionUsage u)\<rparr>
         in if subProfession u1 = '''' then UserData_setSubProfession sp now u1
            else if subProfession u1 = sp then u1
            else
              (let currentSubCount = usageCount (subProfessionUsage u1) (subProfession u1)
               in case map_of (subProfessionUsage u1) sp of
                    None \<Rightarrow> u1
                  | Some newSubCount \<Rightarrow>
                      if newSubCount \<ge> currentSubCount * 2
                      then UserData_setSubProfession sp now u1
                      else u1)))"

text \<open>
  \<^verbatim>\<open>addDamage\<close>, \<^verbatim>\<open>addHealing\<close>, \<^verbatim>\<open>addTakenDamage\<close> (lines 104-140). The statistic
  of a skill is an object inside the map, changed in place: the model writes the changed
  value back under the same key.
\<close>

definition UserData_addDamage ::
  "int \<Rightarrow> nat option \<Rightarrow> int \<Rightarrow> bool \<Rightarrow> bool \<Rightarrow> bool \<Rightarrow> int \<Rightarrow> int \<Rightarrow> UserData \<Rightarrow> UserData" where
  "UserData_addDamage skillId el damage isCrit isLucky isCauseLucky hpLessenValue now u =
     (let u1 = UserData_touch now u;
          u2 = u1\<lparr>damageStats := addRecord damage isCrit isLucky hpLessenValue now (damageStats u1)\<rparr>;
          u3 = (if map_of (skillUsage u2) skillId = None
                then u2\<lparr>skillUsage := AList.update skillId (newStatisticData DAMAGE el) (skillUsage u2)\<rparr>
                else u2);
          u4 = (case map_of (skillUsage u3) skillId of
                  None \<Rightarrow> u3
                | Some sd \<Rightarrow>
                    u3\<lparr>skillUsage :=
                         AList.update skillId
                           ((addRecord damage isCrit isCauseLucky hpLessenValue now sd)
                              \<lparr>realtimeWindow := []\<rparr>)
                           (skillUsage u3)\<rparr>)
      in updateSubProfession skillId now u4)"

definition UserData_addHealing ::
  "int \<Rightarrow> nat option \<Rightarrow> int \<Rightarrow> bool \<Rightarrow> bool \<Rightarrow> bool \<Rightarrow> int \<Rightarrow> UserData \<Rightarrow> UserData" where
  "UserData_addHealing skillId el healing isCrit isLucky isCauseLucky now u =
     (let u1 = UserData_touch now u;
          u2 = u1\<lparr>healingStats := addRecord healing isCrit isLucky 0 now (healingStats u1)\<rparr>;
          healSkillId = skillId + HEAL_OFFSET;
          u3 = (if map_of (skillUsage u2) healSkillId = None
                then u2\<lparr>skillUsage := AList.update healSkillId (newStatisticData HEALING el) (skillUsage u2)\<rparr>
                else u2);
          u4 = (case map_of (skillUsage u3) healSkillId of
                  None \<Rightarrow> u3
                | Some sd \<Rightarrow>
                    u3\<lparr>skillUsage :=
                         AList.update healSkillId
                           ((addRecord healing isCrit isCauseLucky 0 now sd)
                              \<lparr>realtimeWindow := []\<rparr>)
                           (skillUsage u3)\<rparr>)
      in updateSubProfession skillId now u4)"

definition UserData_addTakenDamage :: "int \<Rightarrow> bool \<Rightarrow> int \<Rightarrow> UserData \<Rightarrow> UserData" where
  "UserData_addTakenDamage damage isDead now u =
     (let u1 = UserData_touch now u;
          u2 = u1\<lparr>takenDamage := jsAdd (takenDamage u1) damage\<rparr>
      in if isDead then u2\<lparr>deadCount := jsAdd (deadCount u2) 1\<rparr> else u2)"

text \<open>
  \<^verbatim>\<open>getSkillSummary\<close> (lines 186-222). The remainder \<^verbatim>\<open>%\<close> of JavaScript takes the
  sign of the dividend. The table \<^verbatim>\<open>skill_names.json\<close> is not among the sources: it is
  the parameter \<open>skillConfig\<close>. A display name is the table's string or, with no entry,
  the number itself. The two rates are floating-point quotients and are left out. The
  result object is the list of its entries, in the order of the map.
\<close>

definition jsRem :: "int \<Rightarrow> int \<Rightarrow> int" where
  "jsRem a b = sgn a * (\<bar>a\<bar> mod \<bar>b\<bar>)"

datatype displayName = Name string | RawId int

record skillSummary =
  displayName :: displayName
  summaryType :: statType
  elementType :: "nat option"
  totalDamage :: int
  totalHealing :: int
  totalCount :: int
  critCount :: int
  luckyCount :: int
  damageBreakdown :: buckets
  healingBreakdown :: buckets
  countBreakdown :: buckets

definition skillSummaryOf :: "(int \<Rightarrow> string option) \<Rightarrow> int \<Rightarrow> StatisticData \<Rightarrow> skillSummary" where
  "skillSummaryOf skillConfig skillId stat =
     (let baseSkillId = jsRem skillId HEAL_OFFSET;
          nm = (case skillConfig baseSkillId of Some n \<Rightarrow> Name n | None \<Rightarrow> RawId baseSkillId);
          isHealing = (stype stat = HEALING)
      in \<lparr>displayName = nm,
          summaryType = stype stat,
          elementType = element stat,
          totalDamage = (if isHealing then 0 else total (stats stat)),
          totalHealing = (if isHealing then total (stats stat) else 0),
          totalCount = total (count stat),
          critCount = critical (count stat),
          luckyCount = lucky (count stat),
          damageBreakdown = stats stat,
          healingBreakdown = stats stat,
          countBreakdown = count stat\<rparr>)"

definition getSkillSummary :: "(int \<Rightarrow> string option) \<Rightarrow> UserData \<Rightarrow> (int \<times> skillSummary) list" where
  "getSkillSummary skillConfig u =
     map (\<lambda>(skillId, stat). (skillId, skillSummaryOf skillConfig skillId stat)) (skillUsage u)"

section \<open>Entity and Session State Store\<close>

text \<open>
  The module \<^verbatim>\<open>config.js\<close> is not among the sources; the two settings the store reads
  are the fields of this record.
\<close>

record config =
  IS_PAUSED :: bool
  onlyRecordEliteDummy :: bool

text \<open>
  An entry of \<^verbatim>\<open>userCache\<close> (the persisted name, profession, fight score and maximum
  HP of a uid). The source keys the cache by \<^verbatim>\<open>String(uid)\<close>; the model keys it by the
  uid. A field that is absent is \<open>None\<close>.
\<close>

record cachedData =
  cachedName :: "string option"
  cachedProfession :: "string option"
  cachedSubProfession :: "string option"
  cachedFightPoint :: "int option"
  cachedMaxHp :: "int option"

definition emptyCachedData :: cachedData where
  "emptyCachedData =
     \<lparr>cachedName = None, cachedProfession = None, cachedSubProfession = None,
      cachedFightPoint = None, cachedMaxHp = None\<rparr>"

text \<open>
  \<^verbatim>\<open>UserData.getSummary\<close> and \<^verbatim>\<open>getTotalCount\<close> (UserData.js, lines 152-182),
  without the rates.
\<close>

record hitCounts =
  countNormal :: int
  countCritical :: int
  countLucky :: int
  countTotal :: int

record userSummary =
  total_damage :: buckets
  total_count :: hitCounts
  total_healing :: buckets
  taken_damage :: int
  summaryProfession :: string
  summarySubProfession :: string
  summaryName :: string
  summaryFightPoint :: int
  hp :: "int option"
  max_hp :: "int option"
  dead_count :: int

definition professionLabel :: "UserData \<Rightarrow> string" where
  "professionLabel u =
     profession u @ (if subProfession u \<noteq> '''' then '' '' @ subProfession u else '''')"

definition UserData_getTotalCount :: "UserData \<Rightarrow> hitCounts" where
  "UserData_getTotalCount u =
     \<lparr>countNormal = jsAdd (normal (count (damageStats u))) (normal (count (healingStats u))),
      countCritical = jsAdd (critical (count (damageStats u))) (critical (count (healingStats u))),
      countLucky = jsAdd (lucky (count (damageStats u))) (lucky (count (healingStats u))),
      countTotal = jsAdd (total (count (damageStats u))) (total (count (healingStats u)))\<rparr>"

definition UserData_getSummary :: "UserData \<Rightarrow> userSummary" where
  "UserData_getSummary u =
     \<lparr>total_damage = stats (damageStats u),
      total_count = UserData_getTotalCount u,
      total_healing = stats (healingStats u),
      taken_damage = takenDamage u,
      summaryProfession = professionLabel u,
      summarySubProfession = subProfession u,
      summaryName = name u,
      summaryFightPoint = fightPoint u,
      hp = map_of (attr u) ''hp'',
      max_hp = map_of (attr u) ''max_hp'',
      dead_count = deadCount u\<rparr>"

text \<open>The current session, and the record handed to \<^verbatim>\<open>Sessions.addSession\<close>.\<close>

record session =
  sessionId :: string
  sessionName :: string
  startedAt :: int
  reasonStart :: string
  seq :: "int option"
  instanceId :: "int option"
  fromInstance :: "int option"

text \<open>
  The player object of \<^verbatim>\<open>_buildPlayerSnapshot\<close> (PacketProcessor.js, lines 1269-1345).
  The fields computed after the contribution gate for display only (the rates
  \<^verbatim>\<open>dps\<close> and \<^verbatim>\<open>hps\<close>, the three spell rankings, the copy of the skill summary) are
  left out.
\<close>

record playerSnapshot =
  playerUid :: int
  playerName :: string
  playerProfession :: string
  playerFightPoint :: int
  totalsDamage :: int
  totalsHeal :: int
  playerAttr :: "(string \<times> int) list"

record savedSession = session +
  endedAt :: int
  durationMs :: int
  reasonEnd :: string
  partySize :: nat
  usersAgg :: "(int \<times> userSummary) list"
  players :: "playerSnapshot list"

text \<open>
  The class \<^verbatim>\<open>UserDataManager\<close> (lines 863-903): the live users, the graveyard, the
  two caches, the enemy cache, the current session. The last field is the trace of the
  calls of \<^verbatim>\<open>Sessions.addSession\<close>, the persistence collaborator, in order. Logging,
  socket events, timers and file writes are not part of the state.
\<close>

record UserDataManager =
  users :: "(int \<times> UserData) list"
  userGraveyard :: "(int \<times> UserData) list"
  userCache :: "(int \<times> cachedData) list"
  hpCache :: "(int \<times> int) list"
  startTime :: int
  currentSession :: "session option"
  enemyCacheName :: "(int \<times> string) list"
  enemyCacheHp :: "(int \<times> int) list"
  enemyCacheMaxHp :: "(int \<times> int) list"
  lastAutoSaveTime :: int
  lastLogTime :: int
  sessionsAdded :: "savedSession list"

definition newUserDataManager :: "int \<Rightarrow> UserDataManager" where
  "newUserDataManager now =
     \<lparr>users = [], userGraveyard = [], userCache = [], hpCache = [], startTime = now,
      currentSession = None, enemyCacheName = [], enemyCacheHp = [], enemyCacheMaxHp = [],
      lastAutoSaveTime = 0, lastLogTime = 0, sessionsAdded = []\<rparr>"

text \<open>\<^verbatim>\<open>cleanUpInactiveUsers\<close> (lines 934-948).\<close>

definition moveIfInactive :: "int \<Rightarrow> UserDataManager \<Rightarrow> int \<times> UserData \<Rightarrow> UserDataManager" where
  "moveIfInactive now m e =
     (case e of (u, user) \<Rightarrow>
        if now - lastUpdateTime user > 60 * 1000
        then m\<lparr>users := AList.delete u (users m),
               userGraveyard := AList.update u user (userGraveyard m)\<rparr>
        else m)"

definition cleanUpInactiveUsers :: "int \<Rightarrow> UserDataManager \<Rightarrow> UserDataManager" where
  "cleanUpInactiveUsers now m = foldl (moveIfInactive now) m (users m)"

text \<open>
  \<^verbatim>\<open>getUser\<close> (lines 999-1019); it returns the record and the store. The five
  conditional assignments from the cache entry (lines 1010-1014) are \<open>fromCache\<close>.
\<close>

definition fromCache :: "cachedData \<Rightarrow> int \<Rightarrow> UserData \<Rightarrow> UserData" where
  "fromCache cd now user0 =
     (let a = (case cachedName cd of
                 Some n \<Rightarrow> if n \<noteq> '''' then UserData_setName n now user0 else user0
               | None \<Rightarrow> user0);
          b = (case cachedProfession cd of
                 Some p \<Rightarrow> if p \<noteq> '''' then UserData_setProfession p now a else a
               | None \<Rightarrow> a);
          c = (case cachedSubProfession cd of
                 Some s \<Rightarrow> if s \<noteq> '''' then UserData_setSubProfession s now b else b
               | None \<Rightarrow> b);
          d = (case cachedFightPoint cd of
                 Some fp \<Rightarrow> UserData_setFightPoint fp now c
               | None \<Rightarrow> c)
      in (case cachedMaxHp cd of
            Some h \<Rightarrow> UserData_setAttrKV ''max_hp'' h now d
          | None \<Rightarrow> d))"

definition getUser :: "int \<Rightarrow> int \<Rightarrow> UserDataManager \<Rightarrow> UserData \<times> UserDataManager" where
  "getUser u now m =
     (case map_of (users m) u of
        Some usr \<Rightarrow> (usr, m)
      | None \<Rightarrow>
          (case map_of (userGraveyard m) u of
             Some usr \<Rightarrow>
               (usr, m\<lparr>userGraveyard := AList.delete u (userGraveyard m),
                        users := AList.update u usr (users m)\<rparr>)
           | None \<Rightarrow>
               (let user0 = newUserData u now;
                    user1 = (case map_of (userCache m) u of
                               None \<Rightarrow> user0
                             | Some cd \<Rightarrow> fromCache cd now user0);
                    user2 = (case map_of (hpCache m) u of
                               Some h \<Rightarrow> UserData_setAttrKV ''hp'' h now user1
                             | None \<Rightarrow> user1)
                in (user2, m\<lparr>users := AList.update u user2 (users m)\<rparr>))))"

text \<open>
  \<^verbatim>\<open>addDamage\<close>, \<^verbatim>\<open>addHealing\<close>, \<^verbatim>\<open>addTakenDamage\<close> of the store (lines 1021-1043).
  The record that \<^verbatim>\<open>getUser\<close> returns is the object inside the live map, so its change
  is written back under its uid.
\<close>

definition addDamage ::
  "config \<Rightarrow> int \<Rightarrow> int \<Rightarrow> nat option \<Rightarrow> int \<Rightarrow> bool \<Rightarrow> bool \<Rightarrow> bool \<Rightarrow> int \<Rightarrow> int \<Rightarrow> int
     \<Rightarrow> UserDataManager \<Rightarrow> UserDataManager" where
  "addDamage cfg u skillId el damage isCrit isLucky isCauseLucky hpLessenValue targetUid now m =
     (if IS_PAUSED cfg then m
      else if onlyRecordEliteDummy cfg \<and> targetUid \<noteq> 75 then m
      else
        (case getUser u now m of (user, m1) \<Rightarrow>
           m1\<lparr>users :=
                AList.update u
                  (UserData_addDamage skillId el damage isCrit isLucky isCauseLucky hpLessenValue now user)
                  (users m1)\<rparr>))"

definition addHealing ::
  "config \<Rightarrow> int \<Rightarrow> int \<Rightarrow> nat option \<Rightarrow> int \<Rightarrow> bool \<Rightarrow> bool \<Rightarrow> bool \<Rightarrow> int \<Rightarrow> int
     \<Rightarrow> UserDataManager \<Rightarrow> UserDataManager" where
  "addHealing cfg u skillId el healing isCrit isLucky isCauseLucky targetUid now m =
     (if IS_PAUSED cfg then m
      else if u \<noteq> 0 then
        (case getUser u now m of (user, m1) \<Rightarrow>
           m1\<lparr>users :=
                AList.update u
                  (UserData_addHealing skillId el healing isCrit isLucky isCauseLucky now user)
                  (users m1)\<rparr>)
      else m)"

definition addTakenDamage ::
  "config \<Rightarrow> int \<Rightarrow> int \<Rightarrow> bool \<Rightarrow> int \<Rightarrow> UserDataManager \<Rightarrow> UserDataManager" where
  "addTakenDamage cfg u damage isDead now m =
     (if IS_PAUSED cfg then m
      else
        (case getUser u now m of (user, m1) \<Rightarrow>
           m1\<lparr>users := AList.update u (UserData_addTakenDamage damage isDead now user) (users m1)\<rparr>))"

text \<open>
  \<^verbatim>\<open>addLog\<close> (lines 1045-1067): the line itself goes to a file; the store keeps the
  time of the last line.
\<close>

definition addLog :: "config \<Rightarrow> int \<Rightarrow> UserDataManager \<Rightarrow> UserDataManager" where
  "addLog cfg now m = (if IS_PAUSED cfg then m else m\<lparr>lastLogTime := now\<rparr>)"

text \<open>\<^verbatim>\<open>setAttrKV\<close> of the store (lines 1108-1120); it writes the attribute without
  touching the record.\<close>

definition setAttrKV :: "int \<Rightarrow> string \<Rightarrow> int \<Rightarrow> int \<Rightarrow> UserDataManager \<Rightarrow> UserDataManager" where
  "setAttrKV u key v now m =
     (case getUser u now m of (user, m1) \<Rightarrow>
        (let m2 = m1\<lparr>users := AList.update u (user\<lparr>attr := AList.update key v (attr user)\<rparr>) (users m1)\<rparr>;
             m3 = (if key = ''max_hp''
                   then (let cd = (case map_of (userCache m2) u of None \<Rightarrow> emptyCachedData | Some c \<Rightarrow> c)
                         in m2\<lparr>userCache := AList.update u (cd\<lparr>cachedMaxHp := Some v\<rparr>) (userCache m2)\<rparr>)
                   else m2)
         in if key = ''hp'' then m3\<lparr>hpCache := AList.update u v (hpCache m3)\<rparr> else m3))"

text \<open>\<^verbatim>\<open>deleteEnemyData\<close> (lines 1164-1168).\<close>

definition deleteEnemyData :: "int \<Rightarrow> UserDataManager \<Rightarrow> UserDataManager" where
  "deleteEnemyData i m =
     m\<lparr>enemyCacheName := AList.delete i (enemyCacheName m),
       enemyCacheHp := AList.delete i (enemyCacheHp m),
       enemyCacheMaxHp := AList.delete i (enemyCacheMaxHp m)\<rparr>"

text \<open>
  \<^verbatim>\<open>_getAnyUser\<close>, \<^verbatim>\<open>_getAllUserEntries\<close> and \<^verbatim>\<open>getAllUsersData\<close>
  (lines 1514-1533, 1139-1145). The two maps are walked one after the other with one
  set of seen uids.
\<close>

definition getAnyUser :: "UserDataManager \<Rightarrow> int \<Rightarrow> UserData option" where
  "getAnyUser m u =
     (case map_of (users m) u of Some usr \<Rightarrow> Some usr | None \<Rightarrow> map_of (userGraveyard m) u)"

fun unseenEntries :: "int list \<Rightarrow> (int \<times> UserData) list \<Rightarrow> (int \<times> UserData) list" where
  "unseenEntries seen [] = []"
| "unseenEntries seen ((u, usr) # es) =
     (if u \<in> set seen then unseenEntries seen es
      else (u, usr) # unseenEntries (u # seen) es)"

definition getAllUserEntries :: "UserDataManager \<Rightarrow> (int \<times> UserData) list" where
  "getAllUserEntries m = unseenEntries [] (users m @ userGraveyard m)"

definition getAllUsersData :: "UserDataManager \<Rightarrow> (int \<times> userSummary) list" where
  "getAllUsersData m = map (\<lambda>(u, usr). (u, UserData_getSummary usr)) (getAllUserEntries m)"

text \<open>
  \<^verbatim>\<open>String(n)\<close> for an integer, used for the name of a player without one.
\<close>

function showNat :: "nat \<Rightarrow> string" where
  "showNat n =
     (if n < 10 then [char_of (48 + n)]
      else showNat (n div 10) @ [char_of (48 + n mod 10)])"
  by pat_completeness auto
termination
  by (relation "measure id") auto

declare showNat.simps [simp del]

definition jsString :: "int \<Rightarrow> string" where
  "jsString i = (if i < 0 then CHR ''-'' # showNat (nat (- i)) else showNat (nat i))"

text \<open>
  \<^verbatim>\<open>_buildPlayerSnapshot\<close> (lines 1269-1345), called with a uid as both
  finalisers do.
\<close>

definition buildPlayerSnapshot :: "UserDataManager \<Rightarrow> int \<Rightarrow> playerSnapshot option" where
  "buildPlayerSnapshot m u =
     (case getAnyUser m u of
        None \<Rightarrow> None
      | Some usr \<Rightarrow>
          (let sum = UserData_getSummary usr;
               totalDamage = total (total_damage sum);
               totalHeal = total (total_healing sum)
           in if totalDamage \<le> 5000 \<and> totalHeal \<le> 5000 then None
              else Some \<lparr>playerUid = uid usr,
                         playerName = (if name usr \<noteq> '''' then name usr else jsString (uid usr)),
                         playerProfession = professionLabel usr,
                         playerFightPoint = fightPoint usr,
                         totalsDamage = totalDamage,
                         totalsHeal = totalHeal,
                         playerAttr = attr usr\<rparr>))"

text \<open>
  \<^verbatim>\<open>_finalizeAndPersistSession\<close> (lines 1426-1466). The call of
  \<^verbatim>\<open>Sessions.addSession\<close> is inside a \<^verbatim>\<open>try\<close>: whether the collaborator fails
  or not, the call was made and the current session is dropped.
\<close>

definition finalizeAndPersistSession :: "string \<Rightarrow> int \<Rightarrow> UserDataManager \<Rightarrow> UserDataManager" where
  "finalizeAndPersistSession reason now m =
     (case currentSession m of
        None \<Rightarrow> m
      | Some cs \<Rightarrow>
          (let snapshotUsers = getAllUsersData m;
               ps = List.map_filter (\<lambda>(u, usr). buildPlayerSnapshot m u) (getAllUserEntries m)
           in if length ps = 0 then m\<lparr>currentSession := None\<rparr>
              else
                (let sessionToSave =
                       \<lparr>sessionId = sessionId cs,
                        sessionName = sessionName cs,
                        startedAt = startedAt cs,
                        reasonStart = reasonStart cs,
                        seq = seq cs,
                        instanceId = instanceId cs,
                        fromInstance = fromInstance cs,
                        endedAt = now,
                        durationMs = max 0 (now - startedAt cs),
                        reasonEnd = reason,
                        partySize = length ps,
                        usersAgg = snapshotUsers,
                        players = ps\<rparr>
                 in m\<lparr>sessionsAdded := sessionsAdded m @ [sessionToSave],
                       currentSession := None\<rparr>)))"

text \<open>
  \<^verbatim>\<open>clearAll\<close> (lines 1176-1198); the options are the two parameters. The copy of
  the users it takes first only goes to the files it writes.
\<close>

definition clearAll :: "bool \<Rightarrow> string \<Rightarrow> int \<Rightarrow> UserDataManager \<Rightarrow> UserDataManager" where
  "clearAll persistSession reason now m =
     (let m1 = (if persistSession then finalizeAndPersistSession reason now m else m)
      in m1\<lparr>users := [], userGraveyard := [], startTime := now,
            lastAutoSaveTime := 0, lastLogTime := 0\<rparr>)"

text \<open>A sequence of operations on the store, applied from left to right.\<close>

datatype operation =
    GetUser int int
  | CleanUpInactiveUsers int
  | ClearAll bool string int

fun applyOperation :: "UserDataManager \<Rightarrow> operation \<Rightarrow> UserDataManager" where
  "applyOperation m (GetUser u now) = snd (getUser u now m)"
| "applyOperation m (CleanUpInactiveUsers now) = cleanUpInactiveUsers now m"
| "applyOperation m (ClearAll persistSession reason now) = clearAll persistSession reason now m"

definition runOperations :: "UserDataManager \<Rightarrow> operation list \<Rightarrow> UserDataManager" where
  "runOperations m ops = foldl applyOperation m ops"

section \<open>Delta Interpreter\<close>

unbundle bit_operations_syntax

text \<open>
  A 64-bit value of the decoder is an object of the library \<^verbatim>\<open>long\<close>: 64 bits and
  the flag that says whether they are read unsigned. \<^verbatim>\<open>shiftRight\<close> propagates the
  sign bit whatever the flag and keeps the flag; \<^verbatim>\<open>toNumber()\<close> and \<^verbatim>\<open>Number(x)\<close>
  give the nearest number to the value; \<^verbatim>\<open>isZero()\<close> asks for all bits zero.
\<close>

record Long =
  bits :: "64 word"
  unsigned :: bool

definition Long_ZERO :: Long where
  "Long_ZERO = \<lparr>bits = 0, unsigned = False\<rparr>"

definition Long_value :: "Long \<Rightarrow> int" where
  "Long_value l = (if unsigned l then uint (bits l) else sint (bits l))"

definition Long_shiftRight :: "nat \<Rightarrow> Long \<Rightarrow> Long" where
  "Long_shiftRight n l = l\<lparr>bits := signed_drop_bit n (bits l)\<rparr>"

definition Long_toNumber :: "Long \<Rightarrow> int" where
  "Long_toNumber l = nearestDouble (Long_value l)"

definition Long_isZero :: "Long \<Rightarrow> bool" where
  "Long_isZero l = (bits l = 0)"

text \<open>
  \<^verbatim>\<open>isUuidPlayer\<close> and \<^verbatim>\<open>isUuidMonster\<close> (lines 225-226) look at the low 16 bits
  of a uuid, and the uid is \<^verbatim>\<open>uuid.shiftRight(16).toNumber()\<close>.
\<close>

definition isUuidPlayer :: "Long \<Rightarrow> bool" where
  "isUuidPlayer u = (bits u AND 0xffff = 640)"

definition isUuidMonster :: "Long \<Rightarrow> bool" where
  "isUuidMonster u = (bits u AND 0xffff = 64)"

definition uidOf :: "Long \<Rightarrow> int" where
  "uidOf u = Long_toNumber (Long_shiftRight 16 u)"

text \<open>
  One entry of \<^verbatim>\<open>SkillEffects.Damages\<close>, as the protocol-buffer decoder hands it
  over. The schema (\<^verbatim>\<open>algo/blueprotobuf.js\<close>) is not among the sources. A field that
  is null or undefined is \<open>None\<close>; a 64-bit field that is there is an object and counts
  as true whatever its value. The number \<^verbatim>\<open>pb.EDamageType.Heal\<close> of the schema is the
  parameter \<open>Heal\<close> of the functions below.
\<close>

record damageInfo =
  OwnerId :: int
  TopSummonerId :: "Long option"
  AttackerUuid :: "Long option"
  Value :: "Long option"
  LuckyValue :: "Long option"
  TypeFlag :: "int option"
  Type :: int
  IsDead :: bool
  HpLessenValue :: "Long option"
  Property :: int

text \<open>
  \<^verbatim>\<open>getDamageElement\<close> (lines 203-214) maps a property to a label and an unknown
  property to the label of \<^verbatim>\<open>General\<close>. The labels are not ASCII text; the model
  keeps the number of the property whose label is chosen.
\<close>

definition getDamageElement :: "int \<Rightarrow> nat option" where
  "getDamageElement p = (if 0 \<le> p \<and> p \<le> 9 then Some (nat p) else Some 0)"

text \<open>
  The body of the loop over the damages in \<^verbatim>\<open>#processAoiSyncDelta\<close> (lines 315-393),
  for a target already classified. A \<^verbatim>\<open>continue\<close> leaves the store as it is. The
  store is given \<^verbatim>\<open>Number(damage)\<close>. Building the log line looks the attacker and
  the target up with \<^verbatim>\<open>getUser\<close> when they are players, which may create their
  records; the text of the line is not modelled.
\<close>

definition processDamage ::
  "config \<Rightarrow> int \<Rightarrow> bool \<Rightarrow> int \<Rightarrow> int \<Rightarrow> damageInfo \<Rightarrow> UserDataManager \<Rightarrow> UserDataManager" where
  "processDamage cfg Heal targetIsPlayer target now d m =
     (let skillId = OwnerId d in
      if skillId = 0 then m
      else
        case (case TopSummonerId d of Some a \<Rightarrow> Some a | None \<Rightarrow> AttackerUuid d) of
          None \<Rightarrow> m
        | Some attackerUuid \<Rightarrow>
            (let attackerIsPlayer = isUuidPlayer attackerUuid;
                 attacker = uidOf attackerUuid;
                 damage = (case Value d of
                             Some v \<Rightarrow> v
                           | None \<Rightarrow> (case LuckyValue d of Some l \<Rightarrow> l | None \<Rightarrow> Long_ZERO))
             in if Long_isZero damage then m
                else
                  (let flag = (case TypeFlag d of Some f \<Rightarrow> f | None \<Rightarrow> 0);
                       isCrit = (flag AND 1 = 1);
                       isCauseLucky = (flag AND 4 = 4);
                       isHeal = (Type d = Heal);
                       isDead = IsDead d;
                       isLucky = (LuckyValue d \<noteq> None);
                       hpLessen = (case HpLessenValue d of
                                     Some h \<Rightarrow> Long_toNumber h
                                   | None \<Rightarrow> 0);
                       damageElement = getDamageElement (Property d);
                       m1 =
                         (if targetIsPlayer then
                            (let a = (if isHeal then
                                        addHealing cfg (if attackerIsPlayer then attacker else 0)
                                          skillId damageElement (Long_toNumber damage)
                                          isCrit isLucky isCauseLucky target now m
                                      else addTakenDamage cfg target (Long_toNumber damage) isDead now m)
                             in if isDead then setAttrKV target ''hp'' 0 now a else a)
                          else
                            (let a = (if \<not> isHeal \<and> attackerIsPlayer then
                                        addDamage cfg attacker skillId damageElement
                                          (Long_toNumber damage)
                                          isCrit isLucky isCauseLucky hpLessen target now m
                                      else m)
                             in if isDead then deleteEnemyData target a else a));
                       m2 = (if attackerIsPlayer then snd (getUser attacker now m1) else m1);
                       m3 = (if targetIsPlayer then snd (getUser target now m2) else m2)
                   in addLog cfg now m3)))"

text \<open>
  \<^verbatim>\<open>#processAoiSyncDelta\<close> (lines 296-394) for the damages of a delta. The attribute
  list of the delta, which is decoded and applied before the damages, is not part of
  this model.
\<close>

record aoiSyncDelta =
  Uuid :: "Long option"
  Damages :: "damageInfo list"

definition processAoiSyncDelta ::
  "config \<Rightarrow> int \<Rightarrow> int \<Rightarrow> aoiSyncDelta \<Rightarrow> UserDataManager \<Rightarrow> UserDataManager" where
  "processAoiSyncDelta cfg Heal now delta m =
     (case Uuid delta of
        None \<Rightarrow> m
      | Some targetUuid \<Rightarrow>
          (let targetIsPlayer = isUuidPlayer targetUuid;
               target = uidOf targetUuid
           in foldl (\<lambda>acc d. processDamage cfg Heal targetIsPlayer target now d acc) m
                (Damages delta)))"

section \<open>Notions used by the properties\<close>

text \<open>The uids that have a record in an association list.\<close>

definition uidsOf :: "(int \<times> UserData) list \<Rightarrow> int set" where
  "uidsOf al = set (map fst al)"

text \<open>No uid has a record both in the live map and in the graveyard.\<close>

definition liveGraveyardDisjoint :: "UserDataManager \<Rightarrow> bool" where
  "liveGraveyardDisjoint m = (uidsOf (users m) \<inter> uidsOf (userGraveyard m) = {})"

text \<open>
  Two small stores for trying the persistence gate: both have a current session; in the
  first the only player has done nothing, in the second a live player has 6000 damage
  and a player in the graveyard has done nothing.
\<close>

definition exampleSession :: session where
  "exampleSession =
     \<lparr>sessionId = ''s1'', sessionName = ''Instance 3'', startedAt = 0,
      reasonStart = ''manual_restart'', seq = None, instanceId = Some 3, fromInstance = None\<rparr>"

definition quietPlayer :: UserData where
  "quietPlayer = newUserData 8 0"

definition busyPlayer :: UserData where
  "busyPlayer =
     (newUserData 7 0)\<lparr>damageStats := addRecord 6000 False False 0 1 (newStatisticData DAMAGE None)\<rparr>"

definition quietStore :: UserDataManager where
  "quietStore =
     (newUserDataManager 0)\<lparr>users := [(8, quietPlayer)], currentSession := Some exampleSession\<rparr>"

definition busyStore :: UserDataManager where
  "busyStore =
     (newUserDataManager 0)\<lparr>users := [(7, busyPlayer)], userGraveyard := [(8, quietPlayer)],
                             currentSession := Some exampleSession\<rparr>"

text \<open>
  The record a lookup of a uid finds in the store, live or in the graveyard, or a blank
  record when there is none; and the statistics of a record: damage dealt, healing done,
  damage taken, deaths and the per-skill statistics.
\<close>

definition recordOf :: "UserDataManager \<Rightarrow> int \<Rightarrow> UserData" where
  "recordOf m u = (case getAnyUser m u of Some usr \<Rightarrow> usr | None \<Rightarrow> newUserData u 0)"

definition statistics ::
  "UserData \<Rightarrow> StatisticData \<times> StatisticData \<times> int \<times> int \<times> (int \<times> StatisticData) list" where
  "statistics usr =
     (damageStats usr, healingStats usr, takenDamage usr, deadCount usr, skillUsage usr)"

text \<open>
  The attacker and the damage value of an entry, as the loop body computes them
  (\<^verbatim>\<open>d.TopSummonerId || d.AttackerUuid\<close> and \<^verbatim>\<open>value ?? luckyValue ?? Long.ZERO\<close>),
  and the amount the store is given, \<^verbatim>\<open>Number(damage)\<close>. The magnitude of the event
  is the value of the damage.
\<close>

definition attackerOf :: "damageInfo \<Rightarrow> Long option" where
  "attackerOf d = (case TopSummonerId d of Some a \<Rightarrow> Some a | None \<Rightarrow> AttackerUuid d)"

definition damageOf :: "damageInfo \<Rightarrow> Long" where
  "damageOf d =
     (case Value d of
        Some v \<Rightarrow> v
      | None \<Rightarrow> (case LuckyValue d of Some l \<Rightarrow> l | None \<Rightarrow> Long_ZERO))"

definition amountOf :: "damageInfo \<Rightarrow> int" where
  "amountOf d = Long_toNumber (damageOf d)"

definition magnitudeOf :: "damageInfo \<Rightarrow> int" where
  "magnitudeOf d = Long_value (damageOf d)"

text \<open>
  An entry gets past the three guards of the loop body: it has a skill id, an attacker
  and a damage that is not zero.
\<close>

definition entryIsProcessed :: "damageInfo \<Rightarrow> bool" where
  "entryIsProcessed d = (OwnerId d \<noteq> 0 \<and> attackerOf d \<noteq> None \<and> \<not> Long_isZero (damageOf d))"

text \<open>The attacker of an entry classifies as a player and has the uid \<open>u\<close>.\<close>

definition playerAttackerIs :: "damageInfo \<Rightarrow> int \<Rightarrow> bool" where
  "playerAttackerIs d u =
     (case attackerOf d of None \<Rightarrow> False | Some a \<Rightarrow> isUuidPlayer a \<and> uidOf a = u)"

text \<open>
  The entries of a delta that are credited. On a player target, a heal is credited to
  the uid \<open>u\<close> when the meter runs, the entry is processed, and its attacker is a player
  with the uid \<open>u\<close>, which is not 0; any other entry is credited to the target as taken
  damage when the meter runs and the entry is processed. On another target, an entry
  is credited to \<open>u\<close> as damage dealt when the meter runs, the dummy filter lets the
  target through, the entry is processed and is not a heal, and its attacker is a
  player with the uid \<open>u\<close>.
\<close>

definition healCreditedTo :: "config \<Rightarrow> int \<Rightarrow> int \<Rightarrow> damageInfo \<Rightarrow> bool" where
  "healCreditedTo cfg Heal u d =
     (\<not> IS_PAUSED cfg \<and> entryIsProcessed d \<and> Type d = Heal \<and> u \<noteq> 0 \<and> playerAttackerIs d u)"

definition takenCredited :: "config \<Rightarrow> int \<Rightarrow> damageInfo \<Rightarrow> bool" where
  "takenCredited cfg Heal d = (\<not> IS_PAUSED cfg \<and> entryIsProcessed d \<and> Type d \<noteq> Heal)"

definition damageCreditedTo :: "config \<Rightarrow> int \<Rightarrow> int \<Rightarrow> int \<Rightarrow> damageInfo \<Rightarrow> bool" where
  "damageCreditedTo cfg Heal target u d =
     (\<not> IS_PAUSED cfg \<and> \<not> (onlyRecordEliteDummy cfg \<and> target \<noteq> 75)
      \<and> entryIsProcessed d \<and> Type d \<noteq> Heal \<and> playerAttackerIs d u)"

text \<open>
  A total after the credited entries of a list: the amounts of the credited entries are
  added to it one after the other, as numbers.
\<close>

definition creditAll :: "(damageInfo \<Rightarrow> bool) \<Rightarrow> int \<Rightarrow> damageInfo list \<Rightarrow> int" where
  "creditAll credited start ds =
     foldl (\<lambda>acc d. if credited d then jsAdd acc (amountOf d) else acc) start ds"

text \<open>
  Entries and a configuration for trying the crediting rules: skill 20301 with the
  magnitude 100, by a given attacker and of a given type, while the meter is running.
  The uuids \<open>0x10280\<close> and \<open>0x20280\<close> are the players 1 and 2 (tag 640), \<open>0x50040\<close>
  is the monster 5 (tag 64).
\<close>

definition player1 :: Long where
  "player1 = \<lparr>bits = 0x10280, unsigned = False\<rparr>"

definition player2 :: Long where
  "player2 = \<lparr>bits = 0x20280, unsigned = False\<rparr>"

definition monster5 :: Long where
  "monster5 = \<lparr>bits = 0x50040, unsigned = False\<rparr>"

definition runningConfig :: config where
  "runningConfig = \<lparr>IS_PAUSED = False, onlyRecordEliteDummy = False\<rparr>"

definition exampleEntry :: "Long \<Rightarrow> int \<Rightarrow> damageInfo" where
  "exampleEntry attacker ty =
     \<lparr>OwnerId = 20301, TopSummonerId = None, AttackerUuid = Some attacker,
      Value = Some \<lparr>bits = 100, unsigned = False\<rparr>,
      LuckyValue = None, TypeFlag = None, Type = ty, IsDead = False, HpLessenValue = None,
      Property = 0\<rparr>"

text \<open>The packets that carry no nested stream: nothing is fed back to the assembler.\<close>

definition noNestedStream :: "byte list \<Rightarrow> byte list" where
  "noNestedStream packet = []"

text \<open>
  A store with a current session in which one player has 6000 damage and another has
  6000 healing and no damage.
\<close>

definition healerPlayer :: UserData where
  "healerPlayer =
     (newUserData 9 0)\<lparr>healingStats := addRecord 6000 False False 0 1 (newStatisticData HEALING None)\<rparr>"

definition healerStore :: UserDataManager where
  "healerStore =
     (newUserDataManager 0)\<lparr>users := [(7, busyPlayer), (9, healerPlayer)],
                             currentSession := Some exampleSession\<rparr>"

text \<open>
  A user of known profession who has used the sub-profession \<open>iaido\<close> five times and
  shows it.
\<close>

definition iaidoUser :: UserData where
  "iaidoUser =
     (newUserData 7 0)\<lparr>profession := ''Stormblade'', subProfession := ''iaido'',
                        subProfessionUsage := [(''iaido'', 5)]\<rparr>"

section \<open>Properties of the Frame Assembler\<close>

lemma hasHeader_ident:
  assumes "doesStreamHaveIdentifier (newBinaryReader buf) = Inr (True, t)"
  shows "leValue (take 4 buf) = 0xfffffffe"
  using assms
  by (auto simp: doesStreamHaveIdentifier_def newBinaryReader_def remaining_def readUInt32LE_def
      readInt32_def Let_def split: if_splits sum.splits prod.splits)

lemma hasHeader_out_of_range:
  assumes "doesStreamHaveIdentifier (newBinaryReader buf) = Inr (True, t)"
  shows "leValue (take 4 buf) > MAX_SIZE"
  using hasHeader_ident[OF assms] by (simp add: MAX_SIZE_def)

text \<open>
  The identifier that \<^verbatim>\<open>doesStreamHaveIdentifier\<close> looks for and the length that
  \<^verbatim>\<open>#parseBuffer\<close> reads are the same four bytes. So a buffer that passes the check
  has the length \<open>0xfffffffe\<close>, the branch that cuts a packet off is never reached, and
  every call returns (or throws) with the trace of delivered packets as it was.
\<close>

lemma parseBuffer_delivers_nothing:
  "\<exists>r. parseBuffer nestedOf st = Some r \<and> delivered (stateOf r) = delivered st
        \<and> length (internalBuffer (stateOf r)) \<le> length (internalBuffer st)"
proof (induction "length (internalBuffer st)" arbitrary: st rule: less_induct)
  case less
  show ?case
  proof (cases "length (internalBuffer st) \<ge> 4")
    case False
    then show ?thesis by (subst parseBuffer.simps) simp
  next
    case len: True
    show ?thesis
    proof (cases "doesStreamHaveIdentifier (newBinaryReader (internalBuffer st))")
      case (Inl e)
      with len show ?thesis by (subst parseBuffer.simps) simp
    next
      case (Inr p)
      obtain h t where p: "p = (h, t)" by (cases p)
      show ?thesis
      proof (cases h)
        case True
        with Inr p have "leValue (take 4 (internalBuffer st)) > MAX_SIZE"
          by (simp add: hasHeader_out_of_range)
        with len Inr p True show ?thesis
          by (subst parseBuffer.simps) simp
      next
        case False
        let ?st' = "st\<lparr>internalBuffer := drop 4 (internalBuffer st)\<rparr>"
        from len have "length (internalBuffer ?st') < length (internalBuffer st)" by simp
        from less[OF this] obtain r where
          r: "parseBuffer nestedOf ?st' = Some r" "delivered (stateOf r) = delivered ?st'"
             "length (internalBuffer (stateOf r)) \<le> length (internalBuffer ?st')" by blast
        have "parseBuffer nestedOf st = parseBuffer nestedOf ?st'"
          using len Inr p False by (subst parseBuffer.simps) simp
        with r show ?thesis by simp
      qed
    qed
  qed
qed

lemma processDataChunk_delivers_nothing:
  "\<exists>r. processDataChunk nestedOf chunk st = Some r \<and> delivered (stateOf r) = delivered st"
proof (cases "chunk = []")
  case True
  then show ?thesis by (simp add: processDataChunk_def)
next
  case False
  obtain r where "parseBuffer nestedOf (st\<lparr>internalBuffer := internalBuffer st @ chunk\<rparr>) = Some r"
    and "delivered (stateOf r) = delivered (st\<lparr>internalBuffer := internalBuffer st @ chunk\<rparr>)"
    using parseBuffer_delivers_nothing by blast
  with False show ?thesis by (simp add: processDataChunk_def)
qed

lemmas reader_defs =
  doesStreamHaveIdentifier_def newBinaryReader_def remaining_def readUInt32LE_def
  readInt32_def Let_def leValue_def beValue_def MIN_SIZE_def MAX_SIZE_def

text \<open>
  C1 (the code does not do what the claim says). The claim: a valid frame whose length
  prefix lies in \<open>[6, 1048576]\<close>, fed whole or in pieces to \<^verbatim>\<open>processDataChunk\<close>, is
  handed to the Message Dispatcher exactly once. On the code: the frame of eight bytes
  \<open>08 00 00 00 00 02 00 00\<close> declares the length 8 and is complete, and neither
  feeding it whole nor feeding it in two chunks of four bytes hands anything to the
  dispatcher; its bytes are dropped four at a time as invalid headers.
\<close>

theorem valid_frame_is_never_delivered:
  "leValue (take 4 [8, 0, 0, 0, 0, 2, 0, 0]) = 8 \<and> MIN_SIZE \<le> 8 \<and> 8 \<le> MAX_SIZE
   \<and> processDataChunk nestedOf [8, 0, 0, 0, 0, 2, 0, 0] \<lparr>internalBuffer = [], delivered = []\<rparr>
       = Some (Returned \<lparr>internalBuffer = [], delivered = []\<rparr>)
   \<and> processDataChunk nestedOf [8, 0, 0, 0] \<lparr>internalBuffer = [], delivered = []\<rparr>
       = Some (Returned \<lparr>internalBuffer = [], delivered = []\<rparr>)
   \<and> processDataChunk nestedOf [0, 2, 0, 0] \<lparr>internalBuffer = [], delivered = []\<rparr>
       = Some (Returned \<lparr>internalBuffer = [], delivered = []\<rparr>)"
proof -
  have empty: "parseBuffer nestedOf \<lparr>internalBuffer = [], delivered = []\<rparr>
      = Some (Returned \<lparr>internalBuffer = [], delivered = []\<rparr>)"
    by (subst parseBuffer.simps) simp
  have four: "parseBuffer nestedOf \<lparr>internalBuffer = [a, b, c, d], delivered = []\<rparr>
      = Some (Returned \<lparr>internalBuffer = [], delivered = []\<rparr>)" for a b c d
    by (subst parseBuffer.simps) (simp add: reader_defs empty)
  have whole: "parseBuffer nestedOf \<lparr>internalBuffer = [8, 0, 0, 0, 0, 2, 0, 0], delivered = []\<rparr>
      = Some (Returned \<lparr>internalBuffer = [], delivered = []\<rparr>)"
    by (subst parseBuffer.simps) (simp add: reader_defs four)
  show ?thesis
    by (simp add: processDataChunk_def whole four leValue_def MIN_SIZE_def MAX_SIZE_def)
qed

text \<open>
  C7, as stated, fails: the buffer \<open>00 00 00 00 01\<close> declares the length 0, outside
  \<open>[6, 1048576]\<close>, and the assembler does not discard the backlog; it drops four bytes
  and keeps the fifth.
\<close>

theorem out_of_range_length_keeps_backlog:
  "leValue (take 4 [0, 0, 0, 0, 1]) = 0 \<and> 0 < MIN_SIZE
   \<and> parseBuffer noNestedStream \<lparr>internalBuffer = [0, 0, 0, 0, 1], delivered = []\<rparr>
       = Some (Returned \<lparr>internalBuffer = [1], delivered = []\<rparr>)
   \<and> internalBuffer \<lparr>internalBuffer = [1], delivered = []\<rparr> \<noteq> []"
proof -
  have one: "parseBuffer noNestedStream \<lparr>internalBuffer = [1], delivered = []\<rparr>
      = Some (Returned \<lparr>internalBuffer = [1], delivered = []\<rparr>)"
    by (subst parseBuffer.simps) simp
  have "parseBuffer noNestedStream \<lparr>internalBuffer = [0, 0, 0, 0, 1], delivered = []\<rparr>
      = Some (Returned \<lparr>internalBuffer = [1], delivered = []\<rparr>)"
    by (subst parseBuffer.simps) (simp add: reader_defs one)
  then show ?thesis by (simp add: leValue_def MIN_SIZE_def)
qed

text \<open>
  C7, amended. The identifier check comes before the length check. For a buffer of at
  least four bytes: if the identifier check succeeds and the declared length is outside
  \<open>[6, 1048576]\<close>, the assembler empties the buffer and hands nothing to the
  dispatcher; if the identifier check fails, whatever the declared length, it drops
  exactly four bytes and goes on with the rest.
\<close>

theorem header_check_then_length_check:
  assumes "4 \<le> length (internalBuffer st)"
  shows "(doesStreamHaveIdentifier (newBinaryReader (internalBuffer st)) = Inr (True, t)
            \<and> (leValue (take 4 (internalBuffer st)) < MIN_SIZE
                 \<or> leValue (take 4 (internalBuffer st)) > MAX_SIZE)
          \<longrightarrow> parseBuffer nestedOf st = Some (Returned (st\<lparr>internalBuffer := []\<rparr>)))
       \<and> (doesStreamHaveIdentifier (newBinaryReader (internalBuffer st)) = Inr (False, t)
          \<longrightarrow> parseBuffer nestedOf st
                = parseBuffer nestedOf (st\<lparr>internalBuffer := drop 4 (internalBuffer st)\<rparr>))"
proof (intro conjI impI)
  assume "doesStreamHaveIdentifier (newBinaryReader (internalBuffer st)) = Inr (True, t)
            \<and> (leValue (take 4 (internalBuffer st)) < MIN_SIZE
                 \<or> leValue (take 4 (internalBuffer st)) > MAX_SIZE)"
  with assms show "parseBuffer nestedOf st = Some (Returned (st\<lparr>internalBuffer := []\<rparr>))"
    by (subst parseBuffer.simps) auto
next
  assume "doesStreamHaveIdentifier (newBinaryReader (internalBuffer st)) = Inr (False, t)"
  with assms show "parseBuffer nestedOf st
      = parseBuffer nestedOf (st\<lparr>internalBuffer := drop 4 (internalBuffer st)\<rparr>)"
    by (subst parseBuffer.simps) simp
qed

theorem header_check_then_length_check_witness:
  "doesStreamHaveIdentifier
       (newBinaryReader [254, 255, 255, 255, 0, 0, 0, 0, 0, 0, 0, 0, 0, 0, 0, 0])
     = Inr (True, newBinaryReader [254, 255, 255, 255, 0, 0, 0, 0, 0, 0, 0, 0, 0, 0, 0, 0])
   \<and> leValue (take 4 [254, 255, 255, 255, 0, 0, 0, 0, 0, 0, 0, 0, 0, 0, 0, 0]) > MAX_SIZE
   \<and> parseBuffer noNestedStream
        \<lparr>internalBuffer = [254, 255, 255, 255, 0, 0, 0, 0, 0, 0, 0, 0, 0, 0, 0, 0],
         delivered = []\<rparr>
       = Some (Returned \<lparr>internalBuffer = [], delivered = []\<rparr>)
   \<and> doesStreamHaveIdentifier (newBinaryReader [0, 0, 0, 0, 1])
       = Inr (False, newBinaryReader [0, 0, 0, 0, 1])
   \<and> parseBuffer noNestedStream \<lparr>internalBuffer = [0, 0, 0, 0, 1], delivered = []\<rparr>
       = parseBuffer noNestedStream \<lparr>internalBuffer = [1], delivered = []\<rparr>"
proof -
  let ?b = "[254, 255, 255, 255, 0, 0, 0, 0, 0, 0, 0, 0, 0, 0, 0, 0] :: byte list"
  let ?c = "[0, 0, 0, 0, 1] :: byte list"
  have h1: "doesStreamHaveIdentifier (newBinaryReader ?b) = Inr (True, newBinaryReader ?b)"
    by (simp add: reader_defs)
  have l1: "leValue (take 4 ?b) > MAX_SIZE"
    by (simp add: leValue_def MAX_SIZE_def)
  have h2: "doesStreamHaveIdentifier (newBinaryReader ?c) = Inr (False, newBinaryReader ?c)"
    by (simp add: reader_defs)
  have len1: "4 \<le> length (internalBuffer \<lparr>internalBuffer = ?b, delivered = []\<rparr>)" by simp
  have len2: "4 \<le> length (internalBuffer \<lparr>internalBuffer = ?c, delivered = []\<rparr>)" by simp
  from header_check_then_length_check[OF len1, of "newBinaryReader ?b" noNestedStream] h1 l1
  have r1: "parseBuffer noNestedStream \<lparr>internalBuffer = ?b, delivered = []\<rparr>
      = Some (Returned \<lparr>internalBuffer = [], delivered = []\<rparr>)"
    by simp
  from header_check_then_length_check[OF len2, of "newBinaryReader ?c" noNestedStream] h2
  have r2: "parseBuffer noNestedStream \<lparr>internalBuffer = ?c, delivered = []\<rparr>
      = parseBuffer noNestedStream \<lparr>internalBuffer = [1], delivered = []\<rparr>"
    by simp
  from h1 l1 r1 h2 r2 show ?thesis by blast
qed

section \<open>Properties of the user record\<close>

lemma usageCount_update:
  "usageCount (AList.update k v al) k' = (if k' = k then v else usageCount al k')"
  by (simp add: usageCount_def update_conv')

text \<open>
  One step of the inference, for a record whose profession is known and a skill that
  maps to a candidate: the candidate's counter goes up by one, and the candidate becomes
  the sub-profession when none is set, or when its new count is at least twice the count
  of the current one.
\<close>

lemma updateSubProfession_step:
  assumes "profession u \<noteq> ''...''" "profession u \<noteq> ''''"
    and "getSubProfessionBySkillId s = sp" "sp \<noteq> ''''"
  shows "profession (updateSubProfession s t u) = profession u"
    and "subProfessionUsage (updateSubProfession s t u)
           = AList.update sp (usageCount (subProfessionUsage u) sp + 1) (subProfessionUsage u)"
    and "subProfession (updateSubProfession s t u)
           = (if subProfession u = '''' \<or> subProfession u = sp then sp
              else if 2 * usageCount (subProfessionUsage u) (subProfession u)
                        \<le> usageCount (subProfessionUsage u) sp + 1 then sp
              else subProfession u)"
  using assms
  by (auto simp: updateSubProfession_def Let_def UserData_setSubProfession_def
      UserData_touch_def usageCount_def update_conv' mult.commute split: option.splits)

lemma updateSubProfession_skillUsage [simp]:
  "skillUsage (updateSubProfession s t u) = skillUsage u"
  by (auto simp: updateSubProfession_def Let_def UserData_setSubProfession_def
      UserData_touch_def split: option.splits)

lemma updateSubProfession_fields [simp]:
  "damageStats (updateSubProfession s t u) = damageStats u"
  "healingStats (updateSubProfession s t u) = healingStats u"
  "takenDamage (updateSubProfession s t u) = takenDamage u"
  "deadCount (updateSubProfession s t u) = deadCount u"
  by (auto simp: updateSubProfession_def Let_def UserData_setSubProfession_def
      UserData_touch_def split: option.splits)

lemma getSubProfession_smite: "getSubProfessionBySkillId 1518 = ''smite''"
  by (simp add: getSubProfessionBySkillId_def)

lemma getSubProfession_lifebind: "getSubProfessionBySkillId 20301 = ''lifebind''"
  by (simp add: getSubProfessionBySkillId_def)

text \<open>
  C3, as stated, fails. The claim: for every user whose primary profession is set, one
  skill event of candidate A and then one of candidate B leave the sub-profession at A,
  and a second event of B switches it to B. On the code: a user of profession
  Stormblade who shows the sub-profession \<open>iaido\<close> after five uses gets one event of
  \<open>smite\<close> (skill 1518) and two of \<open>lifebind\<close> (skill 20301), and the sub-profession
  is \<open>iaido\<close> after each of them: the counts 1 and 2 never reach twice 5.
\<close>

theorem established_subProfession_is_kept:
  "profession iaidoUser \<noteq> ''...'' \<and> profession iaidoUser \<noteq> ''''
   \<and> getSubProfessionBySkillId 1518 = ''smite'' \<and> getSubProfessionBySkillId 20301 = ''lifebind''
   \<and> subProfession (updateSubProfession 1518 1 iaidoUser) = ''iaido''
   \<and> subProfession (updateSubProfession 20301 2 (updateSubProfession 1518 1 iaidoUser)) = ''iaido''
   \<and> subProfession
         (updateSubProfession 20301 3
            (updateSubProfession 20301 2 (updateSubProfession 1518 1 iaidoUser))) = ''iaido''"
proof -
  let ?u1 = "updateSubProfession 1518 1 iaidoUser"
  let ?u2 = "updateSubProfession 20301 2 ?u1"
  let ?u3 = "updateSubProfession 20301 3 ?u2"
  have prof: "profession iaidoUser \<noteq> ''...''" "profession iaidoUser \<noteq> ''''"
    by (simp_all add: iaidoUser_def)
  have smite: "''smite'' \<noteq> ''''" and lifebind: "''lifebind'' \<noteq> ''''" by simp_all
  note s1 = updateSubProfession_step[OF prof getSubProfession_smite smite, of 1]
  have sub1: "subProfession ?u1 = ''iaido''"
    unfolding s1(3) by (simp add: iaidoUser_def usageCount_def)
  have use1: "subProfessionUsage ?u1 = [(''iaido'', 5), (''smite'', 1)]"
    unfolding s1(2) by (simp add: iaidoUser_def usageCount_def)
  have prof1: "profession ?u1 \<noteq> ''...''" "profession ?u1 \<noteq> ''''"
    using s1(1) prof by simp_all
  note s2 = updateSubProfession_step[OF prof1 getSubProfession_lifebind lifebind, of 2]
  have sub2: "subProfession ?u2 = ''iaido''"
    unfolding s2(3) sub1 use1 by (simp add: usageCount_def)
  have use2: "subProfessionUsage ?u2 = [(''iaido'', 5), (''smite'', 1), (''lifebind'', 1)]"
    unfolding s2(2) use1 by (simp add: usageCount_def)
  have prof2: "profession ?u2 \<noteq> ''...''" "profession ?u2 \<noteq> ''''"
    using s2(1) prof1 by simp_all
  note s3 = updateSubProfession_step[OF prof2 getSubProfession_lifebind lifebind, of 3]
  have sub3: "subProfession ?u3 = ''iaido''"
    unfolding s3(3) sub2 use2 by (simp add: usageCount_def)
  from prof sub1 sub2 sub3 show ?thesis
    by (simp add: getSubProfession_smite getSubProfession_lifebind)
qed

text \<open>
  C3, amended. Sub-profession hysteresis: for a user whose primary profession is set and
  whose usage counters are zero for the two candidates and for the sub-profession it
  may already show, one skill event of candidate A and then one of candidate B leave
  the sub-profession at A, since equal counts do not switch; a second event of B, whose
  count 2 is twice A's count 1, switches it to B.
\<close>

theorem subProfession_hysteresis:
  assumes prof: "profession u \<noteq> ''...''" "profession u \<noteq> ''''"
    and A: "getSubProfessionBySkillId sA = A" "A \<noteq> ''''"
    and B: "getSubProfessionBySkillId sB = B" "B \<noteq> ''''"
    and AB: "A \<noteq> B"
    and fresh: "usageCount (subProfessionUsage u) A = 0"
      "usageCount (subProfessionUsage u) B = 0"
      "usageCount (subProfessionUsage u) (subProfession u) = 0"
  shows "subProfession (updateSubProfession sA t1 u) = A
       \<and> subProfession (updateSubProfession sB t2 (updateSubProfession sA t1 u)) = A
       \<and> subProfession
           (updateSubProfession sB t3
              (updateSubProfession sB t2 (updateSubProfession sA t1 u))) = B"
proof -
  let ?u1 = "updateSubProfession sA t1 u"
  let ?u2 = "updateSubProfession sB t2 ?u1"
  let ?u3 = "updateSubProfession sB t3 ?u2"
  note s1 = updateSubProfession_step[OF prof A, of t1]
  have sub1: "subProfession ?u1 = A"
    using s1(3) fresh by simp
  have cnt1: "usageCount (subProfessionUsage ?u1) A = 1" "usageCount (subProfessionUsage ?u1) B = 0"
    using s1(2) fresh AB by (simp_all add: usageCount_update)
  have prof1: "profession ?u1 \<noteq> ''...''" "profession ?u1 \<noteq> ''''"
    using s1(1) prof by simp_all
  note s2 = updateSubProfession_step[OF prof1 B, of t2]
  have sub2: "subProfession ?u2 = A"
    using s2(3) sub1 cnt1 A AB by simp
  have cnt2: "usageCount (subProfessionUsage ?u2) A = 1" "usageCount (subProfessionUsage ?u2) B = 1"
    using s2(2) cnt1 AB by (simp_all add: usageCount_update)
  have prof2: "profession ?u2 \<noteq> ''...''" "profession ?u2 \<noteq> ''''"
    using s2(1) prof1 by simp_all
  note s3 = updateSubProfession_step[OF prof2 B, of t3]
  have sub3: "subProfession ?u3 = B"
    using s3(3) sub2 cnt2 A AB by simp
  from sub1 sub2 sub3 show ?thesis by simp
qed

theorem subProfession_hysteresis_witness:
  "subProfession (updateSubProfession 1518 1 ((newUserData 7 0)\<lparr>profession := ''Verdant Oracle''\<rparr>))
     = ''smite''
   \<and> subProfession
       (updateSubProfession 20301 2
          (updateSubProfession 1518 1 ((newUserData 7 0)\<lparr>profession := ''Verdant Oracle''\<rparr>)))
     = ''smite''
   \<and> subProfession
       (updateSubProfession 20301 3
          (updateSubProfession 20301 2
             (updateSubProfession 1518 1 ((newUserData 7 0)\<lparr>profession := ''Verdant Oracle''\<rparr>))))
     = ''lifebind''"
  using subProfession_hysteresis[of "(newUserData 7 0)\<lparr>profession := ''Verdant Oracle''\<rparr>"
      1518 "''smite''" 20301 "''lifebind''" 1 2 3]
  by (simp add: getSubProfession_smite getSubProfession_lifebind newUserData_def usageCount_def)

text \<open>
  The same steps are what a damage event and a healing event do to the sub-profession:
  both end in \<^verbatim>\<open>updateSubProfession\<close> of the raw skill id, and what they do before
  does not touch the profession, the sub-profession or the counters.
\<close>

lemma UserData_addDamage_subProfession:
  "\<exists>v. UserData_addDamage s el dmg c l cl hl t u = updateSubProfession s t v
      \<and> profession v = profession u \<and> subProfession v = subProfession u
      \<and> subProfessionUsage v = subProfessionUsage u"
  by (auto simp: UserData_addDamage_def Let_def UserData_touch_def split: option.splits)

lemma UserData_addHealing_subProfession:
  "\<exists>v. UserData_addHealing s el h c l cl t u = updateSubProfession s t v
      \<and> profession v = profession u \<and> subProfession v = subProfession u
      \<and> subProfessionUsage v = subProfessionUsage u"
  by (auto simp: UserData_addHealing_def Let_def UserData_touch_def split: option.splits)

subsection \<open>The key of a healing skill\<close>

lemma jsRem_heal_key:
  assumes "0 \<le> s" "s < HEAL_OFFSET"
  shows "jsRem (s + HEAL_OFFSET) HEAL_OFFSET = s"
  using assms by (simp add: jsRem_def HEAL_OFFSET_def)

lemma UserData_addHealing_skillUsage:
  "skillUsage (UserData_addHealing s el h c l cl t u)
     = AList.update (s + HEAL_OFFSET)
         ((addRecord h c cl 0 t
             (case map_of (skillUsage u) (s + HEAL_OFFSET) of
                None \<Rightarrow> newStatisticData HEALING el
              | Some sd \<Rightarrow> sd))\<lparr>realtimeWindow := []\<rparr>)
         (skillUsage u)"
  by (auto simp: UserData_addHealing_def Let_def UserData_touch_def update_conv'
      split: option.splits)

lemma UserData_addDamage_skillUsage:
  "skillUsage (UserData_addDamage s el dmg c l cl hl t u)
     = AList.update s
         ((addRecord dmg c cl hl t
             (case map_of (skillUsage u) s of
                None \<Rightarrow> newStatisticData DAMAGE el
              | Some sd \<Rightarrow> sd))\<lparr>realtimeWindow := []\<rparr>)
         (skillUsage u)"
  by (auto simp: UserData_addDamage_def Let_def UserData_touch_def update_conv'
      split: option.splits)

lemma map_of_summaries:
  "map_of (map (\<lambda>(skillId, stat). (skillId, skillSummaryOf cfg skillId stat)) xs) k
     = map_option (skillSummaryOf cfg k) (map_of xs k)"
  by (induction xs) auto

lemma map_of_getSkillSummary:
  "map_of (getSkillSummary cfg u) k = map_option (skillSummaryOf cfg k) (map_of (skillUsage u) k)"
  by (simp add: getSkillSummary_def map_of_summaries)

text \<open>
  C6. Healing-skill key round trip. For every skill id \<open>s\<close>, \<^verbatim>\<open>addHealing\<close> stores the
  statistics of the skill under the key \<open>s + 1000000000\<close>, and \<^verbatim>\<open>getSkillSummary\<close>
  names that entry by the key's remainder modulo \<open>1000000000\<close>. For a skill id from 0
  up to, and not including, \<open>1000000000\<close> the remainder is \<open>s\<close> itself, so the entry is
  named as skill \<open>s\<close>. The key differs from \<open>s\<close>: healing with skill \<open>s\<close> leaves the
  entry of the damage skill \<open>s\<close> as it is, and damage with skill \<open>s\<close> leaves the entry
  of the healing skill as it is.
\<close>

theorem healing_skill_key_roundtrip:
  "map_of (skillUsage (UserData_addHealing s el h c l cl t u)) (s + HEAL_OFFSET)
     = Some ((addRecord h c cl 0 t
                (case map_of (skillUsage u) (s + HEAL_OFFSET) of
                   None \<Rightarrow> newStatisticData HEALING el
                 | Some sd \<Rightarrow> sd))\<lparr>realtimeWindow := []\<rparr>)
   \<and> (\<exists>summ. map_of (getSkillSummary skillConfig (UserData_addHealing s el h c l cl t u))
                 (s + HEAL_OFFSET) = Some summ
        \<and> displayName summ
            = (case skillConfig (jsRem (s + HEAL_OFFSET) HEAL_OFFSET) of
                 Some n \<Rightarrow> Name n
               | None \<Rightarrow> RawId (jsRem (s + HEAL_OFFSET) HEAL_OFFSET))
        \<and> (0 \<le> s \<and> s < HEAL_OFFSET \<longrightarrow>
             displayName summ = (case skillConfig s of Some n \<Rightarrow> Name n | None \<Rightarrow> RawId s)))
   \<and> (0 \<le> s \<and> s < HEAL_OFFSET \<longrightarrow> jsRem (s + HEAL_OFFSET) HEAL_OFFSET = s)
   \<and> s + HEAL_OFFSET \<noteq> s
   \<and> map_of (skillUsage (UserData_addHealing s el h c l cl t u)) s = map_of (skillUsage u) s
   \<and> map_of (skillUsage (UserData_addDamage s el dmg c' l' cl' hl t' u)) (s + HEAL_OFFSET)
       = map_of (skillUsage u) (s + HEAL_OFFSET)"
proof -
  have neq: "s + HEAL_OFFSET \<noteq> s" by (simp add: HEAL_OFFSET_def)
  have stored: "map_of (skillUsage (UserData_addHealing s el h c l cl t u)) (s + HEAL_OFFSET)
     = Some ((addRecord h c cl 0 t
                (case map_of (skillUsage u) (s + HEAL_OFFSET) of
                   None \<Rightarrow> newStatisticData HEALING el
                 | Some sd \<Rightarrow> sd))\<lparr>realtimeWindow := []\<rparr>)"
    by (simp add: UserData_addHealing_skillUsage update_conv')
  have summary: "\<exists>summ. map_of (getSkillSummary skillConfig (UserData_addHealing s el h c l cl t u))
                 (s + HEAL_OFFSET) = Some summ
        \<and> displayName summ
            = (case skillConfig (jsRem (s + HEAL_OFFSET) HEAL_OFFSET) of
                 Some n \<Rightarrow> Name n
               | None \<Rightarrow> RawId (jsRem (s + HEAL_OFFSET) HEAL_OFFSET))
        \<and> (0 \<le> s \<and> s < HEAL_OFFSET \<longrightarrow>
             displayName summ = (case skillConfig s of Some n \<Rightarrow> Name n | None \<Rightarrow> RawId s))"
    by (auto simp: map_of_getSkillSummary stored skillSummaryOf_def Let_def jsRem_heal_key
        split: option.splits)
  have exact: "0 \<le> s \<and> s < HEAL_OFFSET \<longrightarrow> jsRem (s + HEAL_OFFSET) HEAL_OFFSET = s"
    by (simp add: jsRem_heal_key)
  have heal_keeps: "map_of (skillUsage (UserData_addHealing s el h c l cl t u)) s
      = map_of (skillUsage u) s"
    using neq by (simp add: UserData_addHealing_skillUsage update_conv')
  have dmg_keeps: "map_of (skillUsage (UserData_addDamage s el dmg c' l' cl' hl t' u)) (s + HEAL_OFFSET)
       = map_of (skillUsage u) (s + HEAL_OFFSET)"
    using neq by (simp add: UserData_addDamage_skillUsage update_conv')
  from stored summary exact neq heal_keeps dmg_keeps show ?thesis by blast
qed

theorem healing_skill_key_roundtrip_witness:
  "(0::int) \<le> 1518 \<and> 1518 < HEAL_OFFSET
   \<and> jsRem (1518 + HEAL_OFFSET) HEAL_OFFSET = 1518
   \<and> map_of (skillUsage (UserData_addHealing 1518 None 300 False False False 5 (newUserData 7 0)))
        (1518 + HEAL_OFFSET) \<noteq> None
   \<and> map_of (skillUsage (UserData_addHealing 1518 None 300 False False False 5 (newUserData 7 0)))
        1518 = None"
  using healing_skill_key_roundtrip[of 1518 None 300 False False False 5 "newUserData 7 0"
      "\<lambda>k. None" 0 False False False 0 5]
  by (simp add: HEAL_OFFSET_def newUserData_def)

section \<open>Properties of the state store\<close>

text \<open>
  C8. Pause: while \<^verbatim>\<open>IS_PAUSED\<close> is set, \<^verbatim>\<open>addDamage\<close>, \<^verbatim>\<open>addHealing\<close> and
  \<^verbatim>\<open>addTakenDamage\<close> of the store return the store as it was: no user record is created,
  and no aggregate, per-skill statistic, taken-damage total or sub-profession counter
  changes.
\<close>

theorem paused_store_does_not_change:
  assumes "IS_PAUSED cfg"
  shows "addDamage cfg u skillId el dmg isCrit isLucky isCauseLucky hl targetUid now m = m
       \<and> addHealing cfg u skillId el dmg isCrit isLucky isCauseLucky targetUid now m = m
       \<and> addTakenDamage cfg u dmg isDead now m = m"
  using assms by (simp add: addDamage_def addHealing_def addTakenDamage_def)

theorem paused_store_does_not_change_witness:
  "IS_PAUSED \<lparr>IS_PAUSED = True, onlyRecordEliteDummy = False\<rparr>
   \<and> addDamage \<lparr>IS_PAUSED = True, onlyRecordEliteDummy = False\<rparr> 7 1518 None 900 True False False 0 3 10
        (newUserDataManager 0) = newUserDataManager 0
   \<and> addHealing \<lparr>IS_PAUSED = True, onlyRecordEliteDummy = False\<rparr> 7 1518 None 900 True False False 3 10
        (newUserDataManager 0) = newUserDataManager 0
   \<and> addTakenDamage \<lparr>IS_PAUSED = True, onlyRecordEliteDummy = False\<rparr> 7 900 False 10
        (newUserDataManager 0) = newUserDataManager 0"
  using paused_store_does_not_change[of "\<lparr>IS_PAUSED = True, onlyRecordEliteDummy = False\<rparr>"
      7 1518 None 900 True False False 0 3 10 "newUserDataManager 0" False]
  by simp

subsection \<open>Looking a user up\<close>

lemma getUser_live:
  "map_of (users (snd (getUser u now m))) u = Some (fst (getUser u now m))"
  by (simp add: getUser_def Let_def update_conv' split: option.splits)

text \<open>
  C9. Idempotence of the lookup: a second \<^verbatim>\<open>getUser\<close> of the same uid, with nothing
  in between, returns the very record the first call returned (so the same totals, name,
  profession and attributes) and leaves the store as the first call left it, whether
  the first call found the user live, revived it from the graveyard or created it from
  the cache. The clock of the second call does not matter.
\<close>

theorem getUser_twice:
  "getUser u now2 (snd (getUser u now1 m)) = (fst (getUser u now1 m), snd (getUser u now1 m))"
proof -
  have "map_of (users (snd (getUser u now1 m))) u = Some (fst (getUser u now1 m))"
    by (rule getUser_live)
  then show ?thesis
    by (simp add: getUser_def[of u now2])
qed

subsection \<open>Live users and graveyard\<close>

lemma uidsOf_update: "uidsOf (AList.update k v al) = insert k (uidsOf al)"
  by (auto simp: uidsOf_def update_keys)

lemma uidsOf_delete: "uidsOf (AList.delete k al) = uidsOf al - {k}"
  by (auto simp: uidsOf_def delete_keys)

lemma map_of_None_uidsOf: "map_of al k = None \<longleftrightarrow> k \<notin> uidsOf al"
  by (simp add: uidsOf_def map_of_eq_None_iff)

lemma getUser_disjoint:
  assumes "liveGraveyardDisjoint m"
  shows "liveGraveyardDisjoint (snd (getUser u now m))"
proof (cases "map_of (users m) u")
  case (Some usr)
  with assms show ?thesis by (simp add: getUser_def)
next
  case None
  show ?thesis
  proof (cases "map_of (userGraveyard m) u")
    case (Some usr)
    with None assms show ?thesis
      by (auto simp: getUser_def liveGraveyardDisjoint_def uidsOf_update uidsOf_delete)
  next
    case gone: None
    then have "u \<notin> uidsOf (userGraveyard m)" by (simp add: map_of_None_uidsOf)
    with None gone assms show ?thesis
      by (auto simp: getUser_def Let_def liveGraveyardDisjoint_def uidsOf_update)
  qed
qed

lemma moveIfInactive_disjoint:
  assumes "liveGraveyardDisjoint m"
  shows "liveGraveyardDisjoint (moveIfInactive now m e)"
  using assms
  by (cases e) (auto simp: moveIfInactive_def liveGraveyardDisjoint_def uidsOf_update uidsOf_delete)

lemma foldl_moveIfInactive_disjoint:
  "liveGraveyardDisjoint m \<Longrightarrow> liveGraveyardDisjoint (foldl (moveIfInactive now) m es)"
  by (induction es arbitrary: m) (simp_all add: moveIfInactive_disjoint)

lemma cleanUpInactiveUsers_disjoint:
  "liveGraveyardDisjoint m \<Longrightarrow> liveGraveyardDisjoint (cleanUpInactiveUsers now m)"
  by (simp add: cleanUpInactiveUsers_def foldl_moveIfInactive_disjoint)

lemma clearAll_disjoint: "liveGraveyardDisjoint (clearAll persistSession reason now m)"
  by (simp add: clearAll_def Let_def liveGraveyardDisjoint_def uidsOf_def)

lemma newUserDataManager_disjoint: "liveGraveyardDisjoint (newUserDataManager now)"
  by (simp add: newUserDataManager_def liveGraveyardDisjoint_def uidsOf_def)

lemma applyOperation_disjoint:
  "liveGraveyardDisjoint m \<Longrightarrow> liveGraveyardDisjoint (applyOperation m operation)"
  by (cases operation)
    (simp_all add: getUser_disjoint cleanUpInactiveUsers_disjoint clearAll_disjoint)

text \<open>
  C10. Live users and graveyard stay disjoint: from a store in which no uid is in both
  maps (the store is built with both empty), after any sequence of \<^verbatim>\<open>getUser\<close>,
  \<^verbatim>\<open>cleanUpInactiveUsers\<close> and \<^verbatim>\<open>clearAll\<close>, every uid is in at most one of the live
  map and the graveyard. A revival deletes the uid from the graveyard when it puts it
  into the live map, and a move to the graveyard deletes it from the live map.
\<close>

theorem live_and_graveyard_stay_disjoint:
  assumes "liveGraveyardDisjoint m"
  shows "liveGraveyardDisjoint (runOperations m ops)
       \<and> (\<forall>u. \<not> (u \<in> uidsOf (users (runOperations m ops))
                   \<and> u \<in> uidsOf (userGraveyard (runOperations m ops))))"
proof -
  have "liveGraveyardDisjoint (foldl applyOperation m ops)"
    using assms by (induction ops arbitrary: m) (simp_all add: applyOperation_disjoint)
  then show ?thesis
    by (auto simp: runOperations_def liveGraveyardDisjoint_def)
qed

theorem live_and_graveyard_stay_disjoint_witness:
  "liveGraveyardDisjoint (newUserDataManager 0)
   \<and> liveGraveyardDisjoint
        (runOperations (newUserDataManager 0)
           [GetUser 7 0, CleanUpInactiveUsers 100000, GetUser 8 100001, GetUser 7 100002,
            ClearAll False ''manual_clear'' 100003])
   \<and> (\<forall>u. \<not> (u \<in> uidsOf (users (runOperations (newUserDataManager 0)
                                      [GetUser 7 0, CleanUpInactiveUsers 100000, GetUser 8 100001]))
             \<and> u \<in> uidsOf (userGraveyard (runOperations (newUserDataManager 0)
                                      [GetUser 7 0, CleanUpInactiveUsers 100000, GetUser 8 100001]))))"
  using live_and_graveyard_stay_disjoint[OF newUserDataManager_disjoint, of 0
      "[GetUser 7 0, CleanUpInactiveUsers 100000, GetUser 8 100001, GetUser 7 100002,
        ClearAll False ''manual_clear'' 100003]"]
    live_and_graveyard_stay_disjoint[OF newUserDataManager_disjoint, of 0
      "[GetUser 7 0, CleanUpInactiveUsers 100000, GetUser 8 100001]"]
    newUserDataManager_disjoint[of 0]
  by blast

subsection \<open>The persistence gate of a session\<close>

lemma unseenEntries_subset: "set (unseenEntries seen es) \<subseteq> set es"
  by (induction seen es rule: unseenEntries.induct) auto

lemma unseenEntries_keys:
  "fst ` set (unseenEntries seen es) = fst ` set es - set seen"
  by (induction seen es rule: unseenEntries.induct) auto

lemma unseenEntries_distinct: "distinct (map fst (unseenEntries seen es))"
  by (induction seen es rule: unseenEntries.induct) (auto simp: unseenEntries_keys)

lemma length_filter_key:
  assumes "distinct (map fst xs)" "p \<in> fst ` set xs"
  shows "length (filter (\<lambda>e. fst e = p) xs) = 1"
  using assms
proof (induction xs)
  case Nil
  then show ?case by simp
next
  case (Cons x xs)
  show ?case
  proof (cases "fst x = p")
    case True
    from Cons.prems(1) have "fst x \<notin> fst ` set xs" by simp
    with True have "\<forall>e \<in> set xs. fst e \<noteq> p" by (metis imageI)
    then have "filter (\<lambda>e. fst e = p) xs = []" by (simp add: filter_empty_conv)
    with True show ?thesis by simp
  next
    case False
    with Cons show ?thesis by auto
  qed
qed

lemma getAnyUser_SomeD:
  assumes "getAnyUser m u = Some usr"
  shows "(u, usr) \<in> set (users m) \<union> set (userGraveyard m)"
  using assms by (auto simp: getAnyUser_def split: option.splits dest: map_of_SomeD)

lemma getAnyUser_Some_key:
  assumes "getAnyUser m u = Some usr"
  shows "u \<in> fst ` set (getAllUserEntries m)"
proof -
  from getAnyUser_SomeD[OF assms] have "u \<in> fst ` set (users m @ userGraveyard m)" by force
  then show ?thesis by (simp add: getAllUserEntries_def unseenEntries_keys)
qed

lemma getAnyUser_entry:
  assumes "(u, usr) \<in> set (getAllUserEntries m)"
  shows "\<exists>r. getAnyUser m u = Some r"
proof -
  from assms unseenEntries_subset have "(u, usr) \<in> set (users m @ userGraveyard m)"
    unfolding getAllUserEntries_def by blast
  then have "u \<in> fst ` set (users m) \<or> u \<in> fst ` set (userGraveyard m)" by force
  then have "map_of (users m) u \<noteq> None \<or> map_of (userGraveyard m) u \<noteq> None"
    by (simp add: map_of_eq_None_iff)
  then show ?thesis
    by (cases "map_of (users m) u") (auto simp: getAnyUser_def)
qed

lemma buildPlayerSnapshot_None_iff:
  assumes "getAnyUser m u = Some usr"
  shows "buildPlayerSnapshot m u = None
         \<longleftrightarrow> total (stats (damageStats usr)) \<le> 5000 \<and> total (stats (healingStats usr)) \<le> 5000"
  using assms by (simp add: buildPlayerSnapshot_def Let_def UserData_getSummary_def)

lemma length_map_filter:
  "length (List.map_filter f xs) = length (filter (\<lambda>x. f x \<noteq> None) xs)"
  by (simp add: List.map_filter_def)

text \<open>
  What \<^verbatim>\<open>_finalizeAndPersistSession\<close> adds to the trace depends on the number of
  qualifying players only.
\<close>

lemma finalize_no_players:
  assumes "List.map_filter (\<lambda>(u, usr). buildPlayerSnapshot m u) (getAllUserEntries m) = []"
  shows "sessionsAdded (finalizeAndPersistSession reason now m) = sessionsAdded m"
  using assms by (simp add: finalizeAndPersistSession_def Let_def split: option.splits)

lemma finalize_some_players:
  assumes "currentSession m = Some cs"
    and "length (List.map_filter (\<lambda>(u, usr). buildPlayerSnapshot m u) (getAllUserEntries m)) = n"
    and "n > 0"
  shows "\<exists>r. sessionsAdded (finalizeAndPersistSession reason now m) = sessionsAdded m @ [r]
             \<and> partySize r = n \<and> length (players r) = n \<and> reasonEnd r = reason"
  using assms by (auto simp: finalizeAndPersistSession_def Let_def)

lemmas example_defs =
  quietStore_def busyStore_def quietPlayer_def busyPlayer_def exampleSession_def
  newUserDataManager_def newUserData_def newStatisticData_def addRecord_def addToBucket_def
  zeroBuckets_def Let_def jsAdd_def nearestDouble_def

text \<open>
  C4, as stated, fails. The claim: finalising an epoch in which exactly one player
  exceeds 5000 damage persists one session record whose \<^verbatim>\<open>partySize\<close> is 1. On the
  code: in a store with a current session, one player has 6000 damage and a second
  player has no damage and 6000 healing; exactly one player exceeds 5000 damage, and
  the one record that is persisted has the \<^verbatim>\<open>partySize\<close> 2, since healing above 5000
  qualifies a player too.
\<close>

theorem healer_counts_in_partySize:
  "total (stats (damageStats busyPlayer)) = 6000
   \<and> total (stats (damageStats healerPlayer)) = 0
   \<and> total (stats (healingStats healerPlayer)) = 6000
   \<and> map fst (users healerStore) = [7, 9] \<and> userGraveyard healerStore = []
   \<and> currentSession healerStore = Some exampleSession
   \<and> map partySize (sessionsAdded (finalizeAndPersistSession ''manual_clear'' 10 healerStore))
       = [2]"
  by (simp add: finalizeAndPersistSession_def getAllUserEntries_def getAllUsersData_def
      buildPlayerSnapshot_def getAnyUser_def UserData_getSummary_def List.map_filter_def
      healerStore_def healerPlayer_def example_defs)

text \<open>
  C4, amended. Session persistence gate. Finalising an epoch in which every user record,
  live or in the graveyard, has total damage at most 5000 and total healing at most 5000
  makes no call of \<^verbatim>\<open>Sessions.addSession\<close>. Finalising an epoch that has a current
  session and in which one player has total damage above 5000 while every other record
  has damage and healing at most 5000 makes exactly one call, with \<^verbatim>\<open>partySize\<close> equal
  to 1.
\<close>

theorem session_persistence_gate:
  "((\<forall>(u, usr) \<in> set (users m) \<union> set (userGraveyard m).
        total (stats (damageStats usr)) \<le> 5000 \<and> total (stats (healingStats usr)) \<le> 5000)
     \<longrightarrow> sessionsAdded (finalizeAndPersistSession reason now m) = sessionsAdded m)
   \<and> (currentSession m = Some cs \<and> getAnyUser m p = Some up
        \<and> total (stats (damageStats up)) > 5000
        \<and> (\<forall>(u, usr) \<in> set (users m) \<union> set (userGraveyard m).
              u \<noteq> p \<longrightarrow> total (stats (damageStats usr)) \<le> 5000
                           \<and> total (stats (healingStats usr)) \<le> 5000)
     \<longrightarrow> (\<exists>r. sessionsAdded (finalizeAndPersistSession reason now m) = sessionsAdded m @ [r]
              \<and> partySize r = 1 \<and> length (players r) = 1))"
proof (intro conjI impI)
  assume low: "\<forall>(u, usr) \<in> set (users m) \<union> set (userGraveyard m).
        total (stats (damageStats usr)) \<le> 5000 \<and> total (stats (healingStats usr)) \<le> 5000"
  have "buildPlayerSnapshot m u = None" for u
  proof (cases "getAnyUser m u")
    case None
    then show ?thesis by (simp add: buildPlayerSnapshot_def)
  next
    case (Some usr)
    from getAnyUser_SomeD[OF Some] low
    have "total (stats (damageStats usr)) \<le> 5000 \<and> total (stats (healingStats usr)) \<le> 5000"
      by blast
    with Some show ?thesis by (simp add: buildPlayerSnapshot_None_iff)
  qed
  then have "List.map_filter (\<lambda>(u, usr). buildPlayerSnapshot m u) (getAllUserEntries m) = []"
    by (simp add: List.map_filter_def)
  then show "sessionsAdded (finalizeAndPersistSession reason now m) = sessionsAdded m"
    by (rule finalize_no_players)
next
  assume h: "currentSession m = Some cs \<and> getAnyUser m p = Some up
        \<and> total (stats (damageStats up)) > 5000
        \<and> (\<forall>(u, usr) \<in> set (users m) \<union> set (userGraveyard m).
              u \<noteq> p \<longrightarrow> total (stats (damageStats usr)) \<le> 5000
                           \<and> total (stats (healingStats usr)) \<le> 5000)"
  then have cs: "currentSession m = Some cs" and up: "getAnyUser m p = Some up"
    and high: "total (stats (damageStats up)) > 5000"
    and others: "\<forall>(u, usr) \<in> set (users m) \<union> set (userGraveyard m).
              u \<noteq> p \<longrightarrow> total (stats (damageStats usr)) \<le> 5000
                           \<and> total (stats (healingStats usr)) \<le> 5000"
    by blast+
  have qualifies: "buildPlayerSnapshot m u \<noteq> None \<longleftrightarrow> u = p"
    if "(u, usr) \<in> set (getAllUserEntries m)" for u usr
  proof (cases "u = p")
    case True
    with up high show ?thesis by (simp add: buildPlayerSnapshot_None_iff)
  next
    case False
    from getAnyUser_entry[OF that] obtain r where r: "getAnyUser m u = Some r" by blast
    from getAnyUser_SomeD[OF r] others False
    have "total (stats (damageStats r)) \<le> 5000 \<and> total (stats (healingStats r)) \<le> 5000"
      by blast
    with r False show ?thesis by (simp add: buildPlayerSnapshot_None_iff)
  qed
  have "filter (\<lambda>e. (case e of (u, usr) \<Rightarrow> buildPlayerSnapshot m u) \<noteq> None) (getAllUserEntries m)
      = filter (\<lambda>e. fst e = p) (getAllUserEntries m)"
  proof (rule filter_cong[OF refl])
    fix e assume "e \<in> set (getAllUserEntries m)"
    moreover obtain u usr where "e = (u, usr)" by (cases e)
    ultimately have "e = (u, usr)" "(u, usr) \<in> set (getAllUserEntries m)"
      by simp_all
    with qualifies[of u usr]
    show "((case e of (u, usr) \<Rightarrow> buildPlayerSnapshot m u) \<noteq> None) = (fst e = p)"
      by simp
  qed
  moreover have "length (filter (\<lambda>e. fst e = p) (getAllUserEntries m)) = 1"
    by (rule length_filter_key)
      (simp_all add: getAllUserEntries_def unseenEntries_distinct
        getAnyUser_Some_key[OF up, unfolded getAllUserEntries_def])
  ultimately have
    "length (List.map_filter (\<lambda>(u, usr). buildPlayerSnapshot m u) (getAllUserEntries m)) = 1"
    by (simp add: length_map_filter)
  from finalize_some_players[OF cs this, of reason now]
  show "\<exists>r. sessionsAdded (finalizeAndPersistSession reason now m) = sessionsAdded m @ [r]
              \<and> partySize r = 1 \<and> length (players r) = 1"
    by auto
qed

theorem session_persistence_gate_witness:
  "sessionsAdded (finalizeAndPersistSession ''manual_clear'' 10 quietStore) = []
   \<and> (\<exists>r. sessionsAdded (finalizeAndPersistSession ''manual_clear'' 10 busyStore) = [r]
          \<and> partySize r = 1 \<and> length (players r) = 1)"
proof -
  have quiet: "\<forall>(u, usr) \<in> set (users quietStore) \<union> set (userGraveyard quietStore).
        total (stats (damageStats usr)) \<le> 5000 \<and> total (stats (healingStats usr)) \<le> 5000"
    by (simp add: example_defs)
  have busy: "currentSession busyStore = Some exampleSession \<and> getAnyUser busyStore 7 = Some busyPlayer
        \<and> total (stats (damageStats busyPlayer)) > 5000
        \<and> (\<forall>(u, usr) \<in> set (users busyStore) \<union> set (userGraveyard busyStore).
              u \<noteq> 7 \<longrightarrow> total (stats (damageStats usr)) \<le> 5000
                           \<and> total (stats (healingStats usr)) \<le> 5000)"
    by (simp add: example_defs getAnyUser_def)
  have none: "sessionsAdded quietStore = []" "sessionsAdded busyStore = []"
    by (simp_all add: example_defs)
  from session_persistence_gate[of quietStore "''manual_clear''" 10 exampleSession 7 busyPlayer] quiet
  have one: "sessionsAdded (finalizeAndPersistSession ''manual_clear'' 10 quietStore) = []"
    using none by simp
  from session_persistence_gate[of busyStore "''manual_clear''" 10 exampleSession 7 busyPlayer] busy
  have two: "\<exists>r. sessionsAdded (finalizeAndPersistSession ''manual_clear'' 10 busyStore) = [r]
          \<and> partySize r = 1 \<and> length (players r) = 1"
    using none by simp
  from one two show ?thesis by blast
qed

section \<open>Properties of the Delta Interpreter\<close>

subsection \<open>What the operations of the store do to the statistics\<close>

lemma statistics_setters [simp]:
  "statistics (UserData_setName n now usr) = statistics usr"
  "statistics (UserData_setProfession p now usr) = statistics usr"
  "statistics (UserData_setSubProfession s now usr) = statistics usr"
  "statistics (UserData_setFightPoint fp now usr) = statistics usr"
  "statistics (UserData_setAttrKV k v now usr) = statistics usr"
  "statistics (usr\<lparr>attr := a\<rparr>) = statistics usr"
  by (simp_all add: statistics_def UserData_setName_def UserData_setProfession_def
      UserData_setSubProfession_def UserData_setFightPoint_def UserData_setAttrKV_def
      UserData_touch_def Let_def)

lemma statistics_newUserData: "statistics (newUserData u now) = statistics (newUserData u 0)"
  by (simp add: statistics_def newUserData_def)

lemma statistics_guarded_step:
  assumes "\<And>x. statistics (f x) = statistics a"
  shows "statistics (case opt of Some x \<Rightarrow> if c x then f x else a | None \<Rightarrow> a) = statistics a"
  using assms by (cases opt) auto

lemma statistics_step:
  assumes "\<And>x. statistics (f x) = statistics a"
  shows "statistics (case opt of Some x \<Rightarrow> f x | None \<Rightarrow> a) = statistics a"
  using assms by (cases opt) auto

lemma statistics_fromCache: "statistics (fromCache cd now user0) = statistics user0"
proof -
  define a where "a = (case cachedName cd of
                 Some n \<Rightarrow> if n \<noteq> [] then UserData_setName n now user0 else user0
               | None \<Rightarrow> user0)"
  define b where "b = (case cachedProfession cd of
                 Some p \<Rightarrow> if p \<noteq> [] then UserData_setProfession p now a else a
               | None \<Rightarrow> a)"
  define c where "c = (case cachedSubProfession cd of
                 Some s \<Rightarrow> if s \<noteq> [] then UserData_setSubProfession s now b else b
               | None \<Rightarrow> b)"
  define d where "d = (case cachedFightPoint cd of
                 Some fp \<Rightarrow> UserData_setFightPoint fp now c
               | None \<Rightarrow> c)"
  have "statistics a = statistics user0"
    unfolding a_def by (rule statistics_guarded_step) simp
  moreover have "statistics b = statistics a"
    unfolding b_def by (rule statistics_guarded_step) simp
  moreover have "statistics c = statistics b"
    unfolding c_def by (rule statistics_guarded_step) simp
  moreover have "statistics d = statistics c"
    unfolding d_def by (rule statistics_step) simp
  moreover have "statistics (case cachedMaxHp cd of
            Some h \<Rightarrow> UserData_setAttrKV ''max_hp'' h now d
          | None \<Rightarrow> d) = statistics d"
    by (rule statistics_step) simp
  ultimately show ?thesis
    unfolding fromCache_def Let_def a_def[symmetric] b_def[symmetric] c_def[symmetric]
      d_def[symmetric]
    by simp
qed

lemma getAnyUser_getUser:
  "getAnyUser (snd (getUser u now m)) u'
     = (if u' = u then Some (fst (getUser u now m)) else getAnyUser m u')"
  by (auto simp: getUser_def getAnyUser_def Let_def update_conv' delete_conv'
      split: option.splits)

lemma statistics_getUser:
  "statistics (fst (getUser u now m)) = statistics (recordOf m u)"
proof (cases "getAnyUser m u")
  case (Some usr)
  then show ?thesis
    by (auto simp: getUser_def getAnyUser_def recordOf_def split: option.splits)
next
  case None
  then have live: "map_of (users m) u = None" and gone: "map_of (userGraveyard m) u = None"
    by (auto simp: getAnyUser_def split: option.splits)
  have "statistics (fst (getUser u now m)) = statistics (newUserData u now)"
    by (simp add: getUser_def live gone Let_def statistics_fromCache split: option.splits)
  also have "\<dots> = statistics (newUserData u 0)"
    by (rule statistics_newUserData)
  finally show ?thesis
    using None by (simp add: recordOf_def)
qed

lemma recordOf_getUser:
  "statistics (recordOf (snd (getUser u now m)) u') = statistics (recordOf m u')"
  by (simp add: recordOf_def[of "snd (getUser u now m)"] getAnyUser_getUser statistics_getUser)
    (simp add: recordOf_def)

lemma getAnyUser_users_update:
  "getAnyUser (m\<lparr>users := AList.update u x (users m)\<rparr>) u'
     = (if u' = u then Some x else getAnyUser m u')"
  by (simp add: getAnyUser_def update_conv' split: option.splits)

lemma recordOf_written_back:
  "recordOf ((snd (getUser u now m))\<lparr>users := AList.update u x (users (snd (getUser u now m)))\<rparr>) u'
     = (if u' = u then x else recordOf m u')"
  by (simp add: recordOf_def getAnyUser_users_update getAnyUser_getUser)

lemma recordOf_setAttrKV:
  "statistics (recordOf (setAttrKV u key v now m) u') = statistics (recordOf m u')"
proof -
  obtain user m1 where g: "getUser u now m = (user, m1)" by (cases "getUser u now m")
  then have m1: "m1 = snd (getUser u now m)" and user: "user = fst (getUser u now m)" by simp_all
  have "getAnyUser (setAttrKV u key v now m) u'
      = getAnyUser (m1\<lparr>users := AList.update u (user\<lparr>attr := AList.update key v (attr user)\<rparr>) (users m1)\<rparr>) u'"
    by (simp add: setAttrKV_def g Let_def getAnyUser_def split: option.splits)
  then have "recordOf (setAttrKV u key v now m) u'
      = recordOf (m1\<lparr>users := AList.update u (user\<lparr>attr := AList.update key v (attr user)\<rparr>) (users m1)\<rparr>) u'"
    by (simp add: recordOf_def)
  then show ?thesis
    by (simp add: m1 user recordOf_written_back statistics_getUser)
qed

lemma recordOf_deleteEnemyData [simp]: "recordOf (deleteEnemyData i m) u = recordOf m u"
  by (simp add: recordOf_def getAnyUser_def deleteEnemyData_def split: option.splits)

lemma recordOf_addLog [simp]: "recordOf (addLog cfg now m) u = recordOf m u"
  by (simp add: recordOf_def getAnyUser_def addLog_def split: option.splits)

lemma recordOf_addDamage:
  "recordOf (addDamage cfg u skillId el dmg isCrit isLucky isCauseLucky hl targetUid now m) u'
     = (if \<not> IS_PAUSED cfg \<and> \<not> (onlyRecordEliteDummy cfg \<and> targetUid \<noteq> 75) \<and> u' = u
        then UserData_addDamage skillId el dmg isCrit isLucky isCauseLucky hl now
               (fst (getUser u now m))
        else recordOf m u')"
proof -
  obtain user m1 where g: "getUser u now m = (user, m1)" by (cases "getUser u now m")
  then have m1: "m1 = snd (getUser u now m)" and user: "user = fst (getUser u now m)" by simp_all
  show ?thesis
    by (simp add: addDamage_def g) (simp add: m1 user recordOf_written_back)
qed

lemma recordOf_addHealing:
  "recordOf (addHealing cfg u skillId el h isCrit isLucky isCauseLucky targetUid now m) u'
     = (if \<not> IS_PAUSED cfg \<and> u \<noteq> 0 \<and> u' = u
        then UserData_addHealing skillId el h isCrit isLucky isCauseLucky now
               (fst (getUser u now m))
        else recordOf m u')"
proof -
  obtain user m1 where g: "getUser u now m = (user, m1)" by (cases "getUser u now m")
  then have m1: "m1 = snd (getUser u now m)" and user: "user = fst (getUser u now m)" by simp_all
  show ?thesis
    by (simp add: addHealing_def g) (simp add: m1 user recordOf_written_back)
qed

lemma recordOf_addTakenDamage:
  "recordOf (addTakenDamage cfg u dmg isDead now m) u'
     = (if \<not> IS_PAUSED cfg \<and> u' = u
        then UserData_addTakenDamage dmg isDead now (fst (getUser u now m))
        else recordOf m u')"
proof -
  obtain user m1 where g: "getUser u now m = (user, m1)" by (cases "getUser u now m")
  then have m1: "m1 = snd (getUser u now m)" and user: "user = fst (getUser u now m)" by simp_all
  show ?thesis
    by (simp add: addTakenDamage_def g) (simp add: m1 user recordOf_written_back)
qed

text \<open>What the three methods of a record do to its statistics.\<close>

lemma total_addToBucket: "total (addToBucket isCrit isLucky v b) = jsAdd (total b) v"
  by (simp add: addToBucket_def Let_def)

lemma UserData_addDamage_statistics:
  "damageStats (UserData_addDamage s el dmg c l cl hl t usr) = addRecord dmg c l hl t (damageStats usr)"
  "healingStats (UserData_addDamage s el dmg c l cl hl t usr) = healingStats usr"
  "takenDamage (UserData_addDamage s el dmg c l cl hl t usr) = takenDamage usr"
  "deadCount (UserData_addDamage s el dmg c l cl hl t usr) = deadCount usr"
  by (simp_all add: UserData_addDamage_def Let_def UserData_touch_def split: option.splits)

lemma UserData_addHealing_statistics:
  "damageStats (UserData_addHealing s el h c l cl t usr) = damageStats usr"
  "healingStats (UserData_addHealing s el h c l cl t usr) = addRecord h c l 0 t (healingStats usr)"
  "takenDamage (UserData_addHealing s el h c l cl t usr) = takenDamage usr"
  "deadCount (UserData_addHealing s el h c l cl t usr) = deadCount usr"
  by (simp_all add: UserData_addHealing_def Let_def UserData_touch_def split: option.splits)

lemma UserData_addTakenDamage_statistics:
  "damageStats (UserData_addTakenDamage dmg dead t usr) = damageStats usr"
  "healingStats (UserData_addTakenDamage dmg dead t usr) = healingStats usr"
  "takenDamage (UserData_addTakenDamage dmg dead t usr) = jsAdd (takenDamage usr) dmg"
  "skillUsage (UserData_addTakenDamage dmg dead t usr) = skillUsage usr"
  by (simp_all add: UserData_addTakenDamage_def Let_def UserData_touch_def)

lemma statistics_fields:
  assumes "statistics a = statistics b"
  shows "damageStats a = damageStats b" "healingStats a = healingStats b"
    "takenDamage a = takenDamage b" "deadCount a = deadCount b" "skillUsage a = skillUsage b"
  using assms by (simp_all add: statistics_def)

lemmas getUser_fields = statistics_fields[OF statistics_getUser]

lemmas recordOf_getUser_fields = statistics_fields[OF recordOf_getUser]

lemmas recordOf_setAttrKV_fields = statistics_fields[OF recordOf_setAttrKV]

subsection \<open>Numbers\<close>

lemma nearestDouble_safe: "\<bar>v\<bar> \<le> 2 ^ 53 \<Longrightarrow> nearestDouble v = v"
  by (simp add: nearestDouble_def)

lemma jsAdd_safe:
  assumes "\<bar>b\<bar> \<le> 2 ^ 53" and "\<bar>a + b\<bar> \<le> 2 ^ 53"
  shows "jsAdd a (nearestDouble b) = a + b"
  using assms by (simp add: jsAdd_def nearestDouble_safe)

lemma bitLength_bounds:
  "2 ^ k \<le> n \<Longrightarrow> n < 2 ^ Suc k \<Longrightarrow> bitLength n = Suc k"
proof (induction k arbitrary: n)
  case 0
  then have "n = 1" by simp
  then show ?case by (simp add: bitLength.simps[of "Suc 0"] bitLength.simps[of 0])
next
  case (Suc k)
  from Suc.prems have "2 ^ k \<le> n div 2" "n div 2 < 2 ^ Suc k" by simp_all
  from Suc.IH[OF this] Suc.prems show ?case
    by (subst bitLength.simps) auto
qed

text \<open>
  Beyond \<open>2 ^ 53\<close> a value is rounded: \<open>2 ^ 53 + 1\<close> becomes \<open>2 ^ 53\<close>, so adding 1
  to a total of \<open>2 ^ 53\<close> leaves it as it is. The shift of a uuid keeps the sign.
\<close>

lemma nearestDouble_rounds: "nearestDouble 9007199254740993 = 9007199254740992"
proof -
  have "bitLength 9007199254740993 = Suc 53"
    by (rule bitLength_bounds) simp_all
  then show ?thesis
    by (simp add: nearestDouble_def Let_def)
qed

lemma jsAdd_rounds: "jsAdd 9007199254740992 1 = 9007199254740992"
  using nearestDouble_rounds by (simp add: jsAdd_def)

lemma uidOf_keeps_sign: "uidOf \<lparr>bits = - 65536, unsigned = False\<rparr> = - 1"
  by (simp add: uidOf_def Long_toNumber_def Long_shiftRight_def Long_value_def
      sint_signed_drop_bit_eq nearestDouble_def drop_bit_eq_div)

subsection \<open>One damage entry\<close>

lemmas entry_defs =
  entryIsProcessed_def playerAttackerIs_def attackerOf_def damageOf_def amountOf_def

lemma processDamage_no_credit:
  assumes "\<not> tp"
    and "Type d = Heal \<or> (\<forall>a. attackerOf d = Some a \<longrightarrow> \<not> isUuidPlayer a)"
  shows "statistics (recordOf (processDamage cfg Heal tp target now d m) u) = statistics (recordOf m u)"
  using assms
  by (auto simp: processDamage_def attackerOf_def Let_def recordOf_getUser recordOf_setAttrKV
      split: option.splits)

lemma processDamage_unknown_healer:
  assumes "tp" and "Type d = Heal"
    and "IS_PAUSED cfg \<or> (\<forall>a. attackerOf d = Some a \<longrightarrow> \<not> isUuidPlayer a \<or> uidOf a = 0)"
  shows "statistics (recordOf (processDamage cfg Heal tp target now d m) u) = statistics (recordOf m u)"
  using assms
  by (auto simp: processDamage_def attackerOf_def Let_def recordOf_getUser recordOf_setAttrKV
      recordOf_addHealing split: option.splits)

lemma processDamage_taken:
  assumes "tp" and "Type d \<noteq> Heal"
  shows "damageStats (recordOf (processDamage cfg Heal tp target now d m) u) = damageStats (recordOf m u)"
    and "healingStats (recordOf (processDamage cfg Heal tp target now d m) u) = healingStats (recordOf m u)"
    and "skillUsage (recordOf (processDamage cfg Heal tp target now d m) u) = skillUsage (recordOf m u)"
    and "u \<noteq> target \<Longrightarrow>
          takenDamage (recordOf (processDamage cfg Heal tp target now d m) u) = takenDamage (recordOf m u)"
  using assms
  by (auto simp: processDamage_def attackerOf_def Let_def
      recordOf_getUser_fields recordOf_setAttrKV_fields getUser_fields
      recordOf_addTakenDamage UserData_addTakenDamage_statistics
      split: option.splits)

text \<open>
  What one entry does to the three totals: the healing total of a uid on a player
  target, the taken damage of a uid on a player target, the damage total of a uid on
  another target. On a player target the damage dealt of nobody changes.
\<close>

lemma processDamage_healing_total:
  "total (stats (healingStats (recordOf (processDamage cfg Heal True target now d m) u)))
     = (if healCreditedTo cfg Heal u d
        then jsAdd (total (stats (healingStats (recordOf m u)))) (amountOf d)
        else total (stats (healingStats (recordOf m u))))"
  by (auto simp: processDamage_def healCreditedTo_def entry_defs Let_def
      recordOf_getUser_fields recordOf_setAttrKV_fields getUser_fields
      recordOf_addHealing recordOf_addTakenDamage UserData_addHealing_statistics
      UserData_addTakenDamage_statistics addRecord_def total_addToBucket
      split: option.splits)

lemma processDamage_taken_total:
  "takenDamage (recordOf (processDamage cfg Heal True target now d m) u)
     = (if u = target \<and> takenCredited cfg Heal d
        then jsAdd (takenDamage (recordOf m u)) (amountOf d)
        else takenDamage (recordOf m u))"
  by (auto simp: processDamage_def takenCredited_def entry_defs Let_def
      recordOf_getUser_fields recordOf_setAttrKV_fields getUser_fields
      recordOf_addHealing recordOf_addTakenDamage UserData_addHealing_statistics
      UserData_addTakenDamage_statistics
      split: option.splits)

lemma processDamage_player_target_damageStats:
  "damageStats (recordOf (processDamage cfg Heal True target now d m) u) = damageStats (recordOf m u)"
  by (auto simp: processDamage_def Let_def
      recordOf_getUser_fields recordOf_setAttrKV_fields getUser_fields
      recordOf_addHealing recordOf_addTakenDamage UserData_addHealing_statistics
      UserData_addTakenDamage_statistics
      split: option.splits)

lemma processDamage_damage_total:
  "total (stats (damageStats (recordOf (processDamage cfg Heal False target now d m) u)))
     = (if damageCreditedTo cfg Heal target u d
        then jsAdd (total (stats (damageStats (recordOf m u)))) (amountOf d)
        else total (stats (damageStats (recordOf m u))))"
  by (auto simp: processDamage_def damageCreditedTo_def entry_defs Let_def
      recordOf_getUser_fields getUser_fields
      recordOf_addDamage UserData_addDamage_statistics addRecord_def total_addToBucket
      split: option.splits)

subsection \<open>A delta\<close>

lemma monster_is_not_player: "isUuidMonster t \<Longrightarrow> \<not> isUuidPlayer t"
  by (simp add: isUuidMonster_def isUuidPlayer_def)

lemma foldl_no_credit:
  assumes "\<forall>d \<in> set ds. Type d = Heal \<or> (\<forall>a. attackerOf d = Some a \<longrightarrow> \<not> isUuidPlayer a)"
  shows "statistics (recordOf (foldl (\<lambda>acc d. processDamage cfg Heal False target now d acc) m ds) u)
       = statistics (recordOf m u)"
  using assms
proof (induction ds arbitrary: m)
  case Nil
  then show ?case by simp
next
  case (Cons d ds)
  then show ?case by (simp add: processDamage_no_credit)
qed

lemma foldl_unknown_healers:
  assumes "\<forall>d \<in> set ds. Type d = Heal
             \<and> (\<forall>a. attackerOf d = Some a \<longrightarrow> \<not> isUuidPlayer a \<or> uidOf a = 0)"
  shows "statistics (recordOf (foldl (\<lambda>acc d. processDamage cfg Heal True target now d acc) m ds) u)
       = statistics (recordOf m u)"
  using assms
proof (induction ds arbitrary: m)
  case Nil
  then show ?case by simp
next
  case (Cons d ds)
  then show ?case by (simp add: processDamage_unknown_healer)
qed

lemma foldl_taken:
  assumes "\<forall>d \<in> set ds. Type d \<noteq> Heal"
  shows "damageStats (recordOf (foldl (\<lambda>acc d. processDamage cfg Heal True target now d acc) m ds) u)
           = damageStats (recordOf m u)
       \<and> healingStats (recordOf (foldl (\<lambda>acc d. processDamage cfg Heal True target now d acc) m ds) u)
           = healingStats (recordOf m u)
       \<and> skillUsage (recordOf (foldl (\<lambda>acc d. processDamage cfg Heal True target now d acc) m ds) u)
           = skillUsage (recordOf m u)
       \<and> (u \<noteq> target \<longrightarrow>
            takenDamage (recordOf (foldl (\<lambda>acc d. processDamage cfg Heal True target now d acc) m ds) u)
              = takenDamage (recordOf m u))"
  using assms
proof (induction ds arbitrary: m)
  case Nil
  then show ?case by simp
next
  case (Cons d ds)
  then show ?case by (simp add: processDamage_taken)
qed

lemma foldl_healing_total:
  "total (stats (healingStats
      (recordOf (foldl (\<lambda>acc d. processDamage cfg Heal True target now d acc) m ds) u)))
     = creditAll (healCreditedTo cfg Heal u) (total (stats (healingStats (recordOf m u)))) ds"
proof (induction ds arbitrary: m)
  case Nil
  then show ?case by (simp add: creditAll_def)
next
  case (Cons d ds)
  from Cons[of "processDamage cfg Heal True target now d m"] show ?case
    by (simp add: creditAll_def processDamage_healing_total)
qed

lemma foldl_taken_total:
  "takenDamage (recordOf (foldl (\<lambda>acc d. processDamage cfg Heal True target now d acc) m ds) target)
     = creditAll (takenCredited cfg Heal) (takenDamage (recordOf m target)) ds"
proof (induction ds arbitrary: m)
  case Nil
  then show ?case by (simp add: creditAll_def)
next
  case (Cons d ds)
  from Cons[of "processDamage cfg Heal True target now d m"] show ?case
    by (simp add: creditAll_def processDamage_taken_total)
qed

lemma foldl_player_target_damageStats:
  "damageStats (recordOf (foldl (\<lambda>acc d. processDamage cfg Heal True target now d acc) m ds) u)
     = damageStats (recordOf m u)"
  by (induction ds arbitrary: m) (simp_all add: processDamage_player_target_damageStats)

lemma foldl_damage_total:
  "total (stats (damageStats
      (recordOf (foldl (\<lambda>acc d. processDamage cfg Heal False target now d acc) m ds) u)))
     = creditAll (damageCreditedTo cfg Heal target u) (total (stats (damageStats (recordOf m u)))) ds"
proof (induction ds arbitrary: m)
  case Nil
  then show ?case by (simp add: creditAll_def)
next
  case (Cons d ds)
  from Cons[of "processDamage cfg Heal False target now d m"] show ?case
    by (simp add: creditAll_def processDamage_damage_total)
qed

lemma creditAll_one_safe:
  assumes "credited d" and "\<bar>magnitudeOf d\<bar> \<le> 2 ^ 53" and "\<bar>start + magnitudeOf d\<bar> \<le> 2 ^ 53"
  shows "creditAll credited start [d] = start + magnitudeOf d"
  using assms
  by (simp add: creditAll_def amountOf_def magnitudeOf_def Long_toNumber_def jsAdd_safe)

lemma example_uuids:
  "isUuidPlayer player1" "isUuidPlayer player2" "\<not> isUuidPlayer monster5"
  "isUuidMonster monster5" "uidOf player1 = 1" "uidOf player2 = 2" "uidOf monster5 = 5"
  by (simp_all add: isUuidPlayer_def isUuidMonster_def uidOf_def player1_def player2_def
      monster5_def Long_toNumber_def Long_shiftRight_def Long_value_def
      sint_signed_drop_bit_eq nearestDouble_def drop_bit_eq_div)

lemma example_entry:
  "entryIsProcessed (exampleEntry a ty)" "attackerOf (exampleEntry a ty) = Some a"
  "magnitudeOf (exampleEntry a ty) = 100" "amountOf (exampleEntry a ty) = 100"
  "Type (exampleEntry a ty) = ty"
  by (simp_all add: entryIsProcessed_def attackerOf_def magnitudeOf_def amountOf_def damageOf_def
      exampleEntry_def Long_isZero_def Long_toNumber_def Long_value_def nearestDouble_def)

lemma getUser_fresh:
  "getUser u now (newUserDataManager t)
     = (newUserData u now, (newUserDataManager t)\<lparr>users := [(u, newUserData u now)]\<rparr>)"
  by (simp add: getUser_def newUserDataManager_def Let_def)

lemma recordOf_new_store: "recordOf (newUserDataManager t) u = newUserData u 0"
  by (simp add: recordOf_def getAnyUser_def newUserDataManager_def)

text \<open>
  C2, as stated, fails. The claim: a heal on a player target is credited through the
  healing path even when the attacker is unknown (uid 0), so that some user record's
  healing statistics grow by the magnitude. On the code: player 1 is healed for 100 by
  the monster 5 while the meter runs on an empty store; afterwards the only user record
  is the target's, with a healing total of 0.
\<close>

theorem heal_by_unknown_attacker_is_dropped:
  "isUuidPlayer player1 \<and> \<not> isUuidPlayer monster5
   \<and> Type (exampleEntry monster5 2) = 2 \<and> magnitudeOf (exampleEntry monster5 2) = 100
   \<and> \<not> IS_PAUSED runningConfig
   \<and> users (newUserDataManager 0) = [] \<and> userGraveyard (newUserDataManager 0) = []
   \<and> map fst (users (processAoiSyncDelta runningConfig 2 9
                        \<lparr>Uuid = Some player1, Damages = [exampleEntry monster5 2]\<rparr>
                        (newUserDataManager 0))) = [1]
   \<and> userGraveyard (processAoiSyncDelta runningConfig 2 9
                      \<lparr>Uuid = Some player1, Damages = [exampleEntry monster5 2]\<rparr>
                      (newUserDataManager 0)) = []
   \<and> total (stats (healingStats
         (recordOf (processAoiSyncDelta runningConfig 2 9
                      \<lparr>Uuid = Some player1, Damages = [exampleEntry monster5 2]\<rparr>
                      (newUserDataManager 0)) 1))) = 0"
proof -
  have after: "processAoiSyncDelta runningConfig 2 9
                 \<lparr>Uuid = Some player1, Damages = [exampleEntry monster5 2]\<rparr>
                 (newUserDataManager 0)
     = (newUserDataManager 0)\<lparr>users := [(1, newUserData 1 9)], lastLogTime := 9\<rparr>"
    by (simp add: processAoiSyncDelta_def processDamage_def example_uuids exampleEntry_def
        runningConfig_def addHealing_def addLog_def getUser_fresh Let_def Long_isZero_def)
  show ?thesis
    unfolding after
    by (simp add: example_uuids example_entry runningConfig_def newUserDataManager_def
        recordOf_def getAnyUser_def newUserData_def newStatisticData_def zeroBuckets_def)
qed

text \<open>
  C2, amended. For every combat delta whose target classifies as a player, and every
  uid: the healing total of the uid's record after the delta is its total before, to
  which the amounts of the credited heals were added one after the other as numbers; a
  heal is credited to the uid when the meter is not paused, the entry has a skill id,
  an attacker and a damage that is not zero, and the attacker classifies as a player
  with that uid, which is not 0. So a delta of heals whose attackers do not classify as
  players, or have the uid 0, changes the statistics of no user record (a record that
  did not exist counts as blank). For one credited heal whose magnitude is at most
  \<open>2 ^ 53\<close> and keeps the total within \<open>2 ^ 53\<close>, the total grows by exactly the
  magnitude.
\<close>

theorem heal_is_credited_to_known_player_only:
  assumes "isUuidPlayer t"
  shows "(\<forall>u. total (stats (healingStats
                 (recordOf (processAoiSyncDelta cfg Heal now \<lparr>Uuid = Some t, Damages = ds\<rparr> m) u)))
              = creditAll (healCreditedTo cfg Heal u)
                  (total (stats (healingStats (recordOf m u)))) ds)
       \<and> ((\<forall>e \<in> set ds. Type e = Heal
               \<and> (\<forall>b. attackerOf e = Some b \<longrightarrow> \<not> isUuidPlayer b \<or> uidOf b = 0))
          \<longrightarrow> (\<forall>u. statistics
                      (recordOf (processAoiSyncDelta cfg Heal now \<lparr>Uuid = Some t, Damages = ds\<rparr> m) u)
                    = statistics (recordOf m u)))
       \<and> (healCreditedTo cfg Heal v d \<and> \<bar>magnitudeOf d\<bar> \<le> 2 ^ 53
            \<and> \<bar>total (stats (healingStats (recordOf m v))) + magnitudeOf d\<bar> \<le> 2 ^ 53
          \<longrightarrow> total (stats (healingStats
                  (recordOf (processAoiSyncDelta cfg Heal now \<lparr>Uuid = Some t, Damages = [d]\<rparr> m) v)))
              = total (stats (healingStats (recordOf m v))) + magnitudeOf d)"
proof (intro conjI impI allI)
  show "total (stats (healingStats
                 (recordOf (processAoiSyncDelta cfg Heal now \<lparr>Uuid = Some t, Damages = ds\<rparr> m) u)))
              = creditAll (healCreditedTo cfg Heal u)
                  (total (stats (healingStats (recordOf m u)))) ds" for u
    using assms by (simp add: processAoiSyncDelta_def foldl_healing_total)
next
  fix u
  assume "\<forall>e \<in> set ds. Type e = Heal
               \<and> (\<forall>b. attackerOf e = Some b \<longrightarrow> \<not> isUuidPlayer b \<or> uidOf b = 0)"
  from foldl_unknown_healers[OF this] assms
  show "statistics
          (recordOf (processAoiSyncDelta cfg Heal now \<lparr>Uuid = Some t, Damages = ds\<rparr> m) u)
        = statistics (recordOf m u)"
    by (simp add: processAoiSyncDelta_def)
next
  assume h: "healCreditedTo cfg Heal v d \<and> \<bar>magnitudeOf d\<bar> \<le> 2 ^ 53
            \<and> \<bar>total (stats (healingStats (recordOf m v))) + magnitudeOf d\<bar> \<le> 2 ^ 53"
  have "total (stats (healingStats
                  (recordOf (processAoiSyncDelta cfg Heal now \<lparr>Uuid = Some t, Damages = [d]\<rparr> m) v)))
      = creditAll (healCreditedTo cfg Heal v) (total (stats (healingStats (recordOf m v)))) [d]"
    using assms foldl_healing_total[of cfg Heal "uidOf t" now m "[d]" v]
    by (simp add: processAoiSyncDelta_def)
  also have "\<dots> = total (stats (healingStats (recordOf m v))) + magnitudeOf d"
    using h by (simp add: creditAll_one_safe)
  finally show "total (stats (healingStats
                  (recordOf (processAoiSyncDelta cfg Heal now \<lparr>Uuid = Some t, Damages = [d]\<rparr> m) v)))
              = total (stats (healingStats (recordOf m v))) + magnitudeOf d" .
qed

theorem heal_is_credited_to_known_player_only_witness:
  "total (stats (healingStats
       (recordOf (processAoiSyncDelta runningConfig 2 9
                    \<lparr>Uuid = Some player1,
                     Damages = [exampleEntry player2 2, exampleEntry monster5 2]\<rparr>
                    (newUserDataManager 0)) 2))) = 100
   \<and> (\<forall>u. statistics
             (recordOf (processAoiSyncDelta runningConfig 2 9
                          \<lparr>Uuid = Some player1, Damages = [exampleEntry monster5 2]\<rparr>
                          (newUserDataManager 0)) u)
           = statistics (recordOf (newUserDataManager 0) u))
   \<and> total (stats (healingStats
       (recordOf (processAoiSyncDelta runningConfig 2 9
                    \<lparr>Uuid = Some player1, Damages = [exampleEntry player2 2]\<rparr>
                    (newUserDataManager 0)) 2))) = 0 + 100"
  using heal_is_credited_to_known_player_only[OF example_uuids(1), of runningConfig 2 9
      "[exampleEntry player2 2, exampleEntry monster5 2]" "newUserDataManager 0" 2
      "exampleEntry player2 2"]
    heal_is_credited_to_known_player_only[OF example_uuids(1), of runningConfig 2 9
      "[exampleEntry monster5 2]" "newUserDataManager 0" 2 "exampleEntry player2 2"]
  by (simp add: example_uuids example_entry runningConfig_def recordOf_new_store newUserData_def
      newStatisticData_def zeroBuckets_def creditAll_def healCreditedTo_def playerAttackerIs_def
      jsAdd_def nearestDouble_def)

lemma foldl_taken_others:
  assumes "u \<noteq> target"
  shows "takenDamage (recordOf (foldl (\<lambda>acc d. processDamage cfg Heal True target now d acc) m ds) u)
       = takenDamage (recordOf m u)"
  using assms by (induction ds arbitrary: m) (simp_all add: processDamage_taken_total)

text \<open>
  C5. Asymmetric crediting of players and monsters. For a delta whose target classifies
  as a monster: if every entry is a heal or has an attacker that does not classify as
  a player, the statistics of every user record stay as they were (a record that did
  not exist counts as blank); the damage total of every uid after the delta is its
  total before, to which the amounts of the entries credited to it were added one
  after the other as numbers, and an entry is credited to a uid only if it is not
  a heal and its attacker classifies as a player with that uid (and the meter runs,
  the dummy filter lets the target through, and the entry has a skill id and a damage
  that is not zero). For a delta whose target classifies as a player: the damage dealt
  of every record stays as it was, whatever the entries; the taken damage of every
  record but the target's stays as it was; the taken damage of the target is its value
  before, to which the amounts of the entries that are not heals (processed while the
  meter runs) were added as numbers; and if no entry is a heal, the healing and the
  per-skill statistics of every record stay as they were too. For one credited entry
  whose magnitude is at most \<open>2 ^ 53\<close> and keeps the total within \<open>2 ^ 53\<close>, the
  total grows by exactly the magnitude.
\<close>

theorem asymmetric_crediting:
  "(isUuidMonster t \<longrightarrow>
      ((\<forall>e \<in> set ds. Type e = Heal \<or> (\<forall>b. attackerOf e = Some b \<longrightarrow> \<not> isUuidPlayer b))
        \<longrightarrow> (\<forall>u. statistics
                    (recordOf (processAoiSyncDelta cfg Heal now \<lparr>Uuid = Some t, Damages = ds\<rparr> m) u)
                  = statistics (recordOf m u)))
      \<and> (\<forall>u. total (stats (damageStats
                  (recordOf (processAoiSyncDelta cfg Heal now \<lparr>Uuid = Some t, Damages = ds\<rparr> m) u)))
               = creditAll (damageCreditedTo cfg Heal (uidOf t) u)
                   (total (stats (damageStats (recordOf m u)))) ds)
      \<and> (damageCreditedTo cfg Heal (uidOf t) v d \<and> \<bar>magnitudeOf d\<bar> \<le> 2 ^ 53
           \<and> \<bar>total (stats (damageStats (recordOf m v))) + magnitudeOf d\<bar> \<le> 2 ^ 53
        \<longrightarrow> total (stats (damageStats
                (recordOf (processAoiSyncDelta cfg Heal now \<lparr>Uuid = Some t, Damages = [d]\<rparr> m) v)))
             = total (stats (damageStats (recordOf m v))) + magnitudeOf d))
   \<and> (isUuidPlayer t \<longrightarrow>
      ((\<forall>e \<in> set ds. Type e \<noteq> Heal)
        \<longrightarrow> (\<forall>u. damageStats
                    (recordOf (processAoiSyncDelta cfg Heal now \<lparr>Uuid = Some t, Damages = ds\<rparr> m) u)
                    = damageStats (recordOf m u)
                \<and> healingStats
                    (recordOf (processAoiSyncDelta cfg Heal now \<lparr>Uuid = Some t, Damages = ds\<rparr> m) u)
                    = healingStats (recordOf m u)
                \<and> skillUsage
                    (recordOf (processAoiSyncDelta cfg Heal now \<lparr>Uuid = Some t, Damages = ds\<rparr> m) u)
                    = skillUsage (recordOf m u)
                \<and> (u \<noteq> uidOf t \<longrightarrow>
                     takenDamage
                       (recordOf (processAoiSyncDelta cfg Heal now \<lparr>Uuid = Some t, Damages = ds\<rparr> m) u)
                     = takenDamage (recordOf m u))))
      \<and> (\<forall>u. damageStats
                (recordOf (processAoiSyncDelta cfg Heal now \<lparr>Uuid = Some t, Damages = ds\<rparr> m) u)
              = damageStats (recordOf m u)
            \<and> (u \<noteq> uidOf t \<longrightarrow>
                 takenDamage
                   (recordOf (processAoiSyncDelta cfg Heal now \<lparr>Uuid = Some t, Damages = ds\<rparr> m) u)
                 = takenDamage (recordOf m u)))
      \<and> takenDamage
           (recordOf (processAoiSyncDelta cfg Heal now \<lparr>Uuid = Some t, Damages = ds\<rparr> m) (uidOf t))
         = creditAll (takenCredited cfg Heal) (takenDamage (recordOf m (uidOf t))) ds
      \<and> (takenCredited cfg Heal d \<and> \<bar>magnitudeOf d\<bar> \<le> 2 ^ 53
           \<and> \<bar>takenDamage (recordOf m (uidOf t)) + magnitudeOf d\<bar> \<le> 2 ^ 53
        \<longrightarrow> takenDamage
              (recordOf (processAoiSyncDelta cfg Heal now \<lparr>Uuid = Some t, Damages = [d]\<rparr> m)
                 (uidOf t))
             = takenDamage (recordOf m (uidOf t)) + magnitudeOf d))"
proof -
  have monster_quiet: "statistics
       (recordOf (processAoiSyncDelta cfg Heal now \<lparr>Uuid = Some t, Damages = ds\<rparr> m) u)
      = statistics (recordOf m u)"
    if "isUuidMonster t"
      and "\<forall>e \<in> set ds. Type e = Heal \<or> (\<forall>b. attackerOf e = Some b \<longrightarrow> \<not> isUuidPlayer b)"
    for u
    using that by (simp add: processAoiSyncDelta_def monster_is_not_player foldl_no_credit)
  have monster_total: "total (stats (damageStats
                  (recordOf (processAoiSyncDelta cfg Heal now \<lparr>Uuid = Some t, Damages = es\<rparr> m) u)))
               = creditAll (damageCreditedTo cfg Heal (uidOf t) u)
                   (total (stats (damageStats (recordOf m u)))) es"
    if "isUuidMonster t" for u es
    using that by (simp add: processAoiSyncDelta_def monster_is_not_player foldl_damage_total)
  have monster_one: "total (stats (damageStats
                (recordOf (processAoiSyncDelta cfg Heal now \<lparr>Uuid = Some t, Damages = [d]\<rparr> m) v)))
             = total (stats (damageStats (recordOf m v))) + magnitudeOf d"
    if "isUuidMonster t"
      and "damageCreditedTo cfg Heal (uidOf t) v d \<and> \<bar>magnitudeOf d\<bar> \<le> 2 ^ 53
           \<and> \<bar>total (stats (damageStats (recordOf m v))) + magnitudeOf d\<bar> \<le> 2 ^ 53"
    using that by (simp add: monster_total creditAll_one_safe)
  have player_quiet: "damageStats
          (recordOf (processAoiSyncDelta cfg Heal now \<lparr>Uuid = Some t, Damages = ds\<rparr> m) u)
          = damageStats (recordOf m u)
        \<and> healingStats
          (recordOf (processAoiSyncDelta cfg Heal now \<lparr>Uuid = Some t, Damages = ds\<rparr> m) u)
          = healingStats (recordOf m u)
        \<and> skillUsage
          (recordOf (processAoiSyncDelta cfg Heal now \<lparr>Uuid = Some t, Damages = ds\<rparr> m) u)
          = skillUsage (recordOf m u)
        \<and> (u \<noteq> uidOf t \<longrightarrow>
             takenDamage
               (recordOf (processAoiSyncDelta cfg Heal now \<lparr>Uuid = Some t, Damages = ds\<rparr> m) u)
             = takenDamage (recordOf m u))"
    if tp: "isUuidPlayer t" and nh: "\<forall>e \<in> set ds. Type e \<noteq> Heal" for u
    using foldl_taken[OF nh, where cfg = cfg and target = "uidOf t" and now = now and m = m and u = u]
      tp
    by (simp add: processAoiSyncDelta_def)
  have player_always: "damageStats
                (recordOf (processAoiSyncDelta cfg Heal now \<lparr>Uuid = Some t, Damages = ds\<rparr> m) u)
              = damageStats (recordOf m u)
            \<and> (u \<noteq> uidOf t \<longrightarrow>
                 takenDamage
                   (recordOf (processAoiSyncDelta cfg Heal now \<lparr>Uuid = Some t, Damages = ds\<rparr> m) u)
                 = takenDamage (recordOf m u))"
    if "isUuidPlayer t" for u
    using that
    by (simp add: processAoiSyncDelta_def foldl_player_target_damageStats foldl_taken_others)
  have player_taken: "takenDamage
           (recordOf (processAoiSyncDelta cfg Heal now \<lparr>Uuid = Some t, Damages = es\<rparr> m) (uidOf t))
         = creditAll (takenCredited cfg Heal) (takenDamage (recordOf m (uidOf t))) es"
    if "isUuidPlayer t" for es
    using that by (simp add: processAoiSyncDelta_def foldl_taken_total)
  have player_one: "takenDamage
              (recordOf (processAoiSyncDelta cfg Heal now \<lparr>Uuid = Some t, Damages = [d]\<rparr> m)
                 (uidOf t))
             = takenDamage (recordOf m (uidOf t)) + magnitudeOf d"
    if "isUuidPlayer t"
      and "takenCredited cfg Heal d \<and> \<bar>magnitudeOf d\<bar> \<le> 2 ^ 53
           \<and> \<bar>takenDamage (recordOf m (uidOf t)) + magnitudeOf d\<bar> \<le> 2 ^ 53"
    using that by (simp add: player_taken creditAll_one_safe)
  show ?thesis
    using monster_quiet monster_total monster_one player_quiet player_always player_taken
      player_one
    by blast
qed

theorem asymmetric_crediting_witness:
  "(\<forall>u. statistics
          (recordOf (processAoiSyncDelta runningConfig 2 9
                       \<lparr>Uuid = Some monster5, Damages = [exampleEntry player2 2]\<rparr>
                       (newUserDataManager 0)) u)
        = statistics (recordOf (newUserDataManager 0) u))
   \<and> total (stats (damageStats
        (recordOf (processAoiSyncDelta runningConfig 2 9
                     \<lparr>Uuid = Some monster5, Damages = [exampleEntry player2 0]\<rparr>
                     (newUserDataManager 0)) 2))) = 0 + 100
   \<and> (\<forall>u. damageStats
          (recordOf (processAoiSyncDelta runningConfig 2 9
                       \<lparr>Uuid = Some player1, Damages = [exampleEntry monster5 0]\<rparr>
                       (newUserDataManager 0)) u)
        = damageStats (recordOf (newUserDataManager 0) u))
   \<and> takenDamage
        (recordOf (processAoiSyncDelta runningConfig 2 9
                     \<lparr>Uuid = Some player1, Damages = [exampleEntry monster5 0]\<rparr>
                     (newUserDataManager 0)) 1) = 0 + 100"
  using asymmetric_crediting[of monster5 "[exampleEntry player2 2]" 2 runningConfig 9
      "newUserDataManager 0" 2 "exampleEntry player2 0"]
    asymmetric_crediting[of player1 "[exampleEntry monster5 0]" 2 runningConfig 9
      "newUserDataManager 0" 2 "exampleEntry monster5 0"]
  by (simp add: example_uuids example_entry runningConfig_def recordOf_new_store newUserData_def
      newStatisticData_def zeroBuckets_def damageCreditedTo_def takenCredited_def
      playerAttackerIs_def)

end
